theory Spec2Isabelle
  imports Complex_Main "HOL-Library.AList"
begin

section \<open>Python values used by tag-genie\<close>

text \<open>
  A Python \<open>str\<close> is a sequence of Unicode code points, so a string is a list of
  naturals; \<open>py\<close> embeds an ASCII literal of the source.
\<close>

type_synonym pystr = "nat list"

definition py :: "string \<Rightarrow> pystr" where
  "py s = map of_char s"

text \<open>
  \<open>str.strip()\<close> without argument removes leading and trailing characters for which
  \<open>str.isspace\<close> holds. These are the code points of Unicode white space:
  U+0009..U+000D, U+001C..U+0020, U+0085, U+00A0, U+1680, U+2000..U+200A, U+2028, U+2029,
  U+202F, U+205F and U+3000.
\<close>

definition isspace :: "nat \<Rightarrow> bool" where
  "isspace c \<longleftrightarrow>
     (9 \<le> c \<and> c \<le> 13) \<or> (28 \<le> c \<and> c \<le> 32) \<or> c = 133 \<or> c = 160 \<or> c = 5760 \<or>
     (8192 \<le> c \<and> c \<le> 8202) \<or> c = 8232 \<or> c = 8233 \<or> c = 8239 \<or> c = 8287 \<or> c = 12288"

definition strip :: "pystr \<Rightarrow> pystr" where
  "strip s = rev (dropWhile isspace (rev (dropWhile isspace s)))"

text \<open>
  A Python \<open>float\<close> is an IEEE double: a finite value (kept as the exact rational it
  denotes), an infinity or a NaN. Every ordered comparison with a NaN is false.
\<close>

datatype pyfloat = Fin rat | PInf | NInf | NaN

fun float_lt :: "pyfloat \<Rightarrow> pyfloat \<Rightarrow> bool" where
  "float_lt NaN _ = False"
| "float_lt _ NaN = False"
| "float_lt (Fin a) (Fin b) = (a < b)"
| "float_lt NInf NInf = False"
| "float_lt NInf _ = True"
| "float_lt PInf _ = False"
| "float_lt (Fin a) PInf = True"
| "float_lt (Fin a) NInf = False"

definition float_gt :: "pyfloat \<Rightarrow> pyfloat \<Rightarrow> bool" where
  "float_gt a b = float_lt b a"

fun float_le :: "pyfloat \<Rightarrow> pyfloat \<Rightarrow> bool" where
  "float_le NaN _ = False"
| "float_le _ NaN = False"
| "float_le a b = (\<not> float_lt b a)"

text \<open>
  The literals of the source denote the double nearest to the decimal: \<open>0.85\<close> is
  7656119366529843 / 2^53 (slightly below 85/100), \<open>0.8\<close> is 3602879701896397 / 2^52
  (slightly above 8/10); \<open>0.5\<close>, \<open>0.0\<close> and \<open>1.0\<close> are exact.
\<close>

definition lit_0_85 :: pyfloat where
  "lit_0_85 = Fin (7656119366529843 / 9007199254740992)"

definition lit_0_8 :: pyfloat where
  "lit_0_8 = Fin (3602879701896397 / 4503599627370496)"

definition lit_0_5 :: pyfloat where
  "lit_0_5 = Fin (1 / 2)"

definition lit_0_0 :: pyfloat where
  "lit_0_0 = Fin 0"

definition lit_1_0 :: pyfloat where
  "lit_1_0 = Fin 1"

text \<open>
  The exceptions of class \<open>Exception\<close> that the program can meet. \<open>LibraryError\<close>
  stands for any other \<open>Exception\<close> raised inside the external classifier; \<open>Exit\<close> is
  \<open>typer.Exit\<close>.
\<close>

datatype pyexn =
    AttributeError | TypeError | ValueError | KeyError | IndexError
  | ZeroDivisionError | LibraryError nat | Exit

text \<open>
  The values held by a row dictionary: a string, \<open>None\<close>, a float, or the list of surplus
  fields that \<open>csv.DictReader\<close> stores under its rest key.
\<close>

datatype pyval = Str pystr | PyNone | Flt pyfloat | Rest "pystr list"

text \<open>
  A row is a Python \<open>dict\<close>, which keeps insertion order: an association list. The keys are
  column names; the key \<open>None\<close> is the rest key of \<open>csv.DictReader\<close>.
\<close>

type_synonym row = "(pystr option \<times> pyval) list"

abbreviation col :: "string \<Rightarrow> pystr option" where
  "col s \<equiv> Some (py s)"

definition dict_get :: "row \<Rightarrow> pystr option \<Rightarrow> pyval \<Rightarrow> pyval" where
  \<comment> \<open>\<open>row.get(key, default)\<close>\<close>
  "dict_get d k dflt = (case map_of d k of None \<Rightarrow> dflt | Some v \<Rightarrow> v)"

definition dict_set :: "row \<Rightarrow> pystr option \<Rightarrow> pyval \<Rightarrow> row" where
  \<comment> \<open>\<open>row[key] = value\<close>\<close>
  "dict_set d k v = AList.update k v d"

definition dict_item :: "row \<Rightarrow> pystr option \<Rightarrow> pyexn + pyval" where
  \<comment> \<open>\<open>row[key]\<close>\<close>
  "dict_item d k = (case map_of d k of None \<Rightarrow> Inl KeyError | Some v \<Rightarrow> Inr v)"

fun str_strip :: "pyval \<Rightarrow> pyexn + pystr" where
  \<comment> \<open>\<open>value.strip()\<close>: only a string has the method\<close>
  "str_strip (Str s) = Inr (strip s)"
| "str_strip _ = Inl AttributeError"

text \<open>
  The builtin \<open>float(x)\<close>. Its conversion of a string (decimal syntax, rounding to the
  nearest double, \<open>inf\<close> and \<open>nan\<close>) is a parameter \<open>pf\<close>, where \<open>None\<close> stands for
  \<open>ValueError\<close>; a float is returned as it is; \<open>None\<close> and a list raise \<open>TypeError\<close>.
\<close>

fun py_float :: "(pystr \<Rightarrow> pyfloat option) \<Rightarrow> pyval \<Rightarrow> pyexn + pyfloat" where
  "py_float pf (Str s) = (case pf s of None \<Rightarrow> Inl ValueError | Some f \<Rightarrow> Inr f)"
| "py_float pf (Flt f) = Inr f"
| "py_float pf PyNone = Inl TypeError"
| "py_float pf (Rest xs) = Inl TypeError"

section \<open>Shared constants and mappings\<close>

definition NONE_TAG :: pystr where
  "NONE_TAG = py ''None of the above''"

definition TAG_MAP :: "(pystr \<times> pystr) list" where
  "TAG_MAP =
    [(py ''Legal Services and Immigration Consultants'', py ''Legal & Immigration''),
     (py ''Chartered Accountants and Tax Consultants'', py ''Finance & Tax''),
     (py ''Relocation Services and Lifestyle Management'', py ''Relocation & Lifestyle''),
     (py ''Real Estate Agency and Property Rentals'', py ''Real Estate''),
     (py ''None of the above'', py ''None'')]"

definition SHORT_TAG_MAP :: "(pystr \<times> pystr) list" where
  "SHORT_TAG_MAP =
    [(py ''Legal Services and Immigration Consultants'', py ''Legal''),
     (py ''Chartered Accountants and Tax Consultants'', py ''Finance''),
     (py ''Relocation Services and Lifestyle Management'', py ''Lifestyle''),
     (py ''Real Estate Agency and Property Rentals'', py ''Real Estate''),
     (py ''None of the above'', py ''None'')]"

section \<open>Confidence parsing of the audit and clean commands\<close>

text \<open>
  \<^verbatim>\<open>
  try:
      confidence = float(row.get('Confidence_Score', 0.0))
  except (ValueError, TypeError):
      confidence = 0.0
  \<close>
  The handler catches two exception classes only; any other exception would propagate.
\<close>

definition parse_confidence :: "(pystr \<Rightarrow> pyfloat option) \<Rightarrow> row \<Rightarrow> pyexn + pyfloat" where
  "parse_confidence pf r =
     (case py_float pf (dict_get r (col ''Confidence_Score'') (Flt lit_0_0)) of
        Inr f \<Rightarrow> Inr f
      | Inl e \<Rightarrow> if e = ValueError \<or> e = TypeError then Inr lit_0_0 else Inl e)"

section \<open>The clean command\<close>

text \<open>The dictionary \<open>stats\<close> of \<open>clean\<close>, one field per key.\<close>

record stats =
  stats_auto_fixed :: int
  stats_verified :: int
  stats_low_conf :: int
  stats_total :: int

text \<open>
  The body of the loop of \<open>clean\<close> up to the call of the writer: it counts the row, reads
  the three columns, decides, and stores \<open>Final_Tag\<close> and \<open>Audit_Status\<close> in the row.
  \<open>SHORT_TAG_MAP.get(predicted_long)\<close> is \<open>None\<close> for an unmapped label, and
  \<open>if final_tag and ...\<close> is false for \<open>None\<close> and for the empty string; both take
  the \<open>else\<close> branch of the source.
\<close>

definition clean_row ::
  "(pystr \<Rightarrow> pyfloat option) \<Rightarrow> stats \<Rightarrow> row \<Rightarrow> pyexn + (stats \<times> row)" where
  "clean_row pf st0 r =
    (let st = st0\<lparr>stats_total := stats_total st0 + 1\<rparr> in
     case str_strip (dict_get r (col ''Category'') (Str [])) of
       Inl e \<Rightarrow> Inl e
     | Inr original \<Rightarrow>
    (case str_strip (dict_get r (col ''Predicted_Tag'') (Str [])) of
       Inl e \<Rightarrow> Inl e
     | Inr predicted_long \<Rightarrow>
    (case parse_confidence pf r of
       Inl e \<Rightarrow> Inl e
     | Inr confidence \<Rightarrow>
    (let predicted_short_for_comparison =
           (case map_of TAG_MAP predicted_long of None \<Rightarrow> predicted_long | Some v \<Rightarrow> v)
     in
     if float_gt confidence lit_0_85 \<and> original \<noteq> predicted_short_for_comparison then
       (case map_of SHORT_TAG_MAP predicted_long of
          Some final_tag \<Rightarrow>
            if final_tag \<noteq> [] \<and> final_tag \<noteq> py ''None'' then
              Inr (st\<lparr>stats_auto_fixed := stats_auto_fixed st + 1\<rparr>,
                   dict_set (dict_set r (col ''Final_Tag'') (Str final_tag))
                     (col ''Audit_Status'') (Str (py ''AUTO_FIXED'')))
            else
              Inr (st\<lparr>stats_verified := stats_verified st + 1\<rparr>,
                   dict_set (dict_set r (col ''Final_Tag'') (Str original))
                     (col ''Audit_Status'') (Str (py ''VERIFIED'')))
        | None \<Rightarrow>
            Inr (st\<lparr>stats_verified := stats_verified st + 1\<rparr>,
                 dict_set (dict_set r (col ''Final_Tag'') (Str original))
                   (col ''Audit_Status'') (Str (py ''VERIFIED''))))
     else if float_lt confidence lit_0_5 then
       Inr (st\<lparr>stats_low_conf := stats_low_conf st + 1\<rparr>,
            dict_set (dict_set r (col ''Final_Tag'') (Str original))
              (col ''Audit_Status'') (Str (py ''NEEDS_REVIEW'')))
     else
       Inr (st\<lparr>stats_verified := stats_verified st + 1\<rparr>,
            dict_set (dict_set r (col ''Final_Tag'') (Str original))
              (col ''Audit_Status'') (Str (py ''VERIFIED'')))))))"

section \<open>The audit command\<close>

text \<open>An entry of \<open>danger_rows\<close>; \<open>row.get('Name')\<close> is \<open>None\<close> when there is no such key.\<close>

record danger_row =
  Name :: pyval
  Original :: pystr
  Predicted :: pystr
  Conf :: pyfloat

text \<open>The local variables of \<open>audit\<close> that the loop updates.\<close>

record counters =
  total :: int
  agreements :: int
  high_conf_agreements :: int
  high_conf_disagreements :: int
  low_conf :: int
  danger_rows :: "danger_row list"

definition counters0 :: counters where
  "counters0 = \<lparr>total = 0, agreements = 0, high_conf_agreements = 0,
                 high_conf_disagreements = 0, low_conf = 0, danger_rows = []\<rparr>"

text \<open>The body of the loop of \<open>audit\<close>.\<close>

definition audit_row :: "(pystr \<Rightarrow> pyfloat option) \<Rightarrow> counters \<Rightarrow> row \<Rightarrow> pyexn + counters" where
  "audit_row pf c0 r =
    (let c1 = c0\<lparr>total := total c0 + 1\<rparr> in
     case str_strip (dict_get r (col ''Category'') (Str [])) of
       Inl e \<Rightarrow> Inl e
     | Inr original \<Rightarrow>
    (case str_strip (dict_get r (col ''Predicted_Tag'') (Str [])) of
       Inl e \<Rightarrow> Inl e
     | Inr predicted_long \<Rightarrow>
    (case parse_confidence pf r of
       Inl e \<Rightarrow> Inl e
     | Inr confidence \<Rightarrow>
    (let predicted_short =
           (case map_of TAG_MAP predicted_long of None \<Rightarrow> predicted_long | Some v \<Rightarrow> v);
         is_match = (original = predicted_short);
         c2 = (if is_match then
                 (let c = c1\<lparr>agreements := agreements c1 + 1\<rparr> in
                  if float_gt confidence lit_0_8
                  then c\<lparr>high_conf_agreements := high_conf_agreements c + 1\<rparr>
                  else c)
               else
                 (if float_gt confidence lit_0_8
                  then c1\<lparr>high_conf_disagreements := high_conf_disagreements c1 + 1,
                          danger_rows := danger_rows c1 @
                            [\<lparr>Name = dict_get r (col ''Name'') PyNone, Original = original,
                              Predicted = predicted_long, Conf = confidence\<rparr>]\<rparr>
                  else c1))
     in Inr (if float_lt confidence lit_0_5 then c2\<lparr>low_conf := low_conf c2 + 1\<rparr> else c2)))))"

fun audit_rows :: "(pystr \<Rightarrow> pyfloat option) \<Rightarrow> counters \<Rightarrow> row list \<Rightarrow> pyexn + counters" where
  "audit_rows pf c [] = Inr c"
| "audit_rows pf c (r # rs) =
     (case audit_row pf c r of Inl e \<Rightarrow> Inl e | Inr c' \<Rightarrow> audit_rows pf c' rs)"

text \<open>
  \<open>(count/total)*100\<close>: the true division of two integers raises \<open>ZeroDivisionError\<close>
  when the divisor is zero. The quotient is kept exact; its rounding to a double and its
  rendering with one decimal are not modelled.
\<close>

definition percentage :: "int \<Rightarrow> int \<Rightarrow> pyexn + rat" where
  "percentage n t = (if t = 0 then Inl ZeroDivisionError else Inr (of_int n / of_int t * 100))"

text \<open>
  What \<open>audit\<close> prints when it ends without exception: the rows of the summary table
  (a count and a percentage each), the first ten danger rows and the number of further
  ones. \<open>r['Name'][:30]\<close> needs a string. The line break put into the prediction and the
  rendering of the numbers are not modelled.
\<close>

record audit_report =
  rep_total :: int
  rep_agreement :: "int \<times> rat"
  rep_high_conf_agreement :: "int \<times> rat"
  rep_low_conf :: "int \<times> rat"
  rep_danger_zone :: "int \<times> rat"
  rep_examples :: "(pystr \<times> pystr \<times> pystr \<times> pyfloat) list"
  rep_more :: "int option"

fun danger_table :: "danger_row list \<Rightarrow> pyexn + (pystr \<times> pystr \<times> pystr \<times> pyfloat) list" where
  "danger_table [] = Inr []"
| "danger_table (r # rs) =
     (case Name r of
        Str n \<Rightarrow>
          (case danger_table rs of
             Inl e \<Rightarrow> Inl e
           | Inr t \<Rightarrow> Inr ((take 30 n, Original r, Predicted r, Conf r) # t))
      | _ \<Rightarrow> Inl TypeError)"

definition report :: "counters \<Rightarrow> pyexn + audit_report" where
  "report c =
    (case percentage (agreements c) (total c) of
       Inl e \<Rightarrow> Inl e
     | Inr p1 \<Rightarrow>
    (case percentage (high_conf_agreements c) (total c) of
       Inl e \<Rightarrow> Inl e
     | Inr p2 \<Rightarrow>
    (case percentage (low_conf c) (total c) of
       Inl e \<Rightarrow> Inl e
     | Inr p3 \<Rightarrow>
    (case percentage (high_conf_disagreements c) (total c) of
       Inl e \<Rightarrow> Inl e
     | Inr p4 \<Rightarrow>
    (case danger_table (take 10 (danger_rows c)) of
       Inl e \<Rightarrow> Inl e
     | Inr t \<Rightarrow>
       Inr \<lparr>rep_total = total c,
            rep_agreement = (agreements c, p1),
            rep_high_conf_agreement = (high_conf_agreements c, p2),
            rep_low_conf = (low_conf c, p3),
            rep_danger_zone = (high_conf_disagreements c, p4),
            rep_examples = t,
            rep_more = (if length (danger_rows c) > 10
                        then Some (int (length (danger_rows c)) - 10) else None)\<rparr>)))))"

section \<open>Reading a CSV file\<close>

text \<open>
  The content of an input file as \<open>csv.reader\<close> delivers it: the header line (absent in
  an empty file) and the records after it, each a list of fields.
\<close>

record csv_file =
  fieldnames :: "pystr list option"
  records :: "pystr list list"

text \<open>
  \<open>csv.DictReader\<close> (standard library) builds one dictionary per record:
  \<open>dict(zip(fieldnames, record))\<close>; surplus fields go as a list under the rest key
  \<open>None\<close>, missing fields are set to \<open>None\<close>. Records without any field (blank lines)
  are passed over.
\<close>

definition dict_row :: "pystr list \<Rightarrow> pystr list \<Rightarrow> row" where
  "dict_row names flds =
    (let d = fold (\<lambda>(k, v) d. dict_set d (Some k) (Str v)) (zip names flds) [];
         lf = length names;
         lr = length flds
     in if lf < lr then dict_set d None (Rest (drop lf flds))
        else if lf > lr then fold (\<lambda>k d. dict_set d (Some k) PyNone) (drop lr names) d
        else d)"

definition read_rows :: "csv_file \<Rightarrow> row list" where
  "read_rows f =
     (case fieldnames f of
        None \<Rightarrow> []
      | Some names \<Rightarrow> map (dict_row names) (filter (\<lambda>flds. flds \<noteq> []) (records f)))"

text \<open>
  The command \<open>audit\<close>: a missing file (\<open>None\<close>) ends in \<open>typer.Exit\<close>; no other
  exception is handled.
\<close>

definition audit :: "(pystr \<Rightarrow> pyfloat option) \<Rightarrow> csv_file option \<Rightarrow> pyexn + audit_report" where
  "audit pf input =
    (case input of
       None \<Rightarrow> Inl Exit
     | Some f \<Rightarrow>
         (case audit_rows pf counters0 (read_rows f) of
            Inl e \<Rightarrow> Inl e
          | Inr c \<Rightarrow> report c))"

section \<open>The process command\<close>

text \<open>
  The external zero-shot classifier. Loading the model and classifying a text can each
  succeed or raise, and need not answer alike every time: the outcome may depend on how
  many attempts came before. A classification result holds the labels ranked by score and
  the scores.
\<close>

record classification =
  labels :: "pystr list"
  scores :: "pyfloat list"

record collaborator =
  load_model :: "nat \<Rightarrow> pyexn option"
  classify :: "nat \<Rightarrow> pystr \<Rightarrow> pystr list \<Rightarrow> pyexn + classification"

text \<open>
  The state of the collaborator: whether \<open>lru_cache\<close> holds the loaded pipeline, how
  often loading was tried, and the calls of the classifier so far (text and label list).
\<close>

record cls_state =
  loaded :: bool
  load_attempts :: nat
  calls :: "(pystr \<times> pystr list) list"

definition get_classifier :: "collaborator \<Rightarrow> cls_state \<Rightarrow> pyexn option \<times> cls_state" where
  \<comment> \<open>\<open>lru_cache\<close> keeps a returned value, never an exception\<close>
  "get_classifier cl s =
    (if loaded s then (None, s)
     else (case load_model cl (load_attempts s) of
             Some e \<Rightarrow> (Some e, s\<lparr>load_attempts := load_attempts s + 1\<rparr>)
           | None \<Rightarrow> (None, s\<lparr>loaded := True, load_attempts := load_attempts s + 1\<rparr>)))"

definition run_classification ::
  "collaborator \<Rightarrow> pyval \<Rightarrow> pystr list \<Rightarrow> cls_state \<Rightarrow> (pyexn + pystr \<times> pyfloat) \<times> cls_state" where
  "run_classification cl text candidate_tags s =
    (case str_strip text of
       Inl e \<Rightarrow> (Inl e, s)
     | Inr text' \<Rightarrow>
         if text' = [] then (Inr (NONE_TAG, lit_1_0), s)
         else
           (case get_classifier cl s of
              (Some e, s1) \<Rightarrow> (Inl e, s1)
            | (None, s1) \<Rightarrow>
                (let full_tag_list = candidate_tags @ [NONE_TAG];
                     s2 = s1\<lparr>calls := calls s1 @ [(text', full_tag_list)]\<rparr>
                 in case classify cl (length (calls s1)) text' full_tag_list of
                      Inl e \<Rightarrow> (Inl e, s2)
                    | Inr result \<Rightarrow>
                        (case labels result of
                           [] \<Rightarrow> (Inl IndexError, s2)
                         | winner_tag # _ \<Rightarrow>
                             (case scores result of
                                [] \<Rightarrow> (Inl IndexError, s2)
                              | winner_score # _ \<Rightarrow> (Inr (winner_tag, winner_score), s2))))))"

text \<open>
  \<open>csv.DictWriter.writerow\<close> (standard library, with the default
  \<open>extrasaction='raise'\<close> and \<open>restval=''\<close>): a key of the row that is not a field name
  raises \<open>ValueError\<close>; otherwise the line holds the value of each field name in order.
  The conversion of the values to text is not modelled.
\<close>

definition writerow :: "pystr list \<Rightarrow> row \<Rightarrow> pyexn + pyval list" where
  "writerow names rowdict =
    (if \<exists>k \<in> set (map fst rowdict). k \<notin> set (map Some names) then Inl ValueError
     else Inr (map (\<lambda>key. dict_get rowdict (Some key) (Str [])) names))"

text \<open>
  The body of the loop of \<open>process_csv\<close>. \<open>row[column]\<close> stands before the \<open>try\<close>;
  \<open>except Exception\<close> marks the row on every failure of the classification, and
  \<open>finally\<close> writes the row. What the console shows is not modelled.
\<close>

definition process_row ::
  "collaborator \<Rightarrow> pystr list \<Rightarrow> pystr \<Rightarrow> pystr list \<Rightarrow> row \<Rightarrow> cls_state \<Rightarrow>
     (pyexn + pyval list) \<times> cls_state" where
  "process_row cl new_headers column candidate_tags r s =
    (case dict_item r (Some column) of
       Inl e \<Rightarrow> (Inl e, s)
     | Inr text_to_classify \<Rightarrow>
         (case run_classification cl text_to_classify candidate_tags s of
            (Inr (winner_tag, winner_score), s') \<Rightarrow>
              (writerow new_headers
                 (dict_set (dict_set r (col ''Predicted_Tag'') (Str winner_tag))
                    (col ''Confidence_Score'') (Flt winner_score)), s')
          | (Inl e, s') \<Rightarrow>
              (writerow new_headers
                 (dict_set (dict_set r (col ''Predicted_Tag'') (Str (py ''ERROR'')))
                    (col ''Confidence_Score'') (Str (py ''0.0''))), s')))"

text \<open>
  The loop: the lines written, the exception that ended the loop early (if any), and the
  state of the collaborator.
\<close>

fun process_rows ::
  "collaborator \<Rightarrow> pystr list \<Rightarrow> pystr \<Rightarrow> pystr list \<Rightarrow> row list \<Rightarrow> cls_state \<Rightarrow>
     pyval list list \<times> pyexn option \<times> cls_state" where
  "process_rows cl new_headers column candidate_tags [] s = ([], None, s)"
| "process_rows cl new_headers column candidate_tags (r # rs) s =
     (case process_row cl new_headers column candidate_tags r s of
        (Inl e, s') \<Rightarrow> ([], Some e, s')
      | (Inr line, s') \<Rightarrow>
          (case process_rows cl new_headers column candidate_tags rs s' of
             (out, err, s'') \<Rightarrow> (line # out, err, s'')))"

fun split_on :: "nat \<Rightarrow> pystr \<Rightarrow> pystr list" where
  \<comment> \<open>\<open>s.split(sep)\<close> for a separator of one character\<close>
  "split_on sep [] = [[]]"
| "split_on sep (c # cs) =
     (if c = sep then [] # split_on sep cs
      else (case split_on sep cs of
              w # ws \<Rightarrow> (c # w) # ws
            | [] \<Rightarrow> [[c]]))"

record out_file =
  out_header :: "pystr list"
  out_rows :: "pyval list list"

text \<open>
  The command \<open>process\<close>: the output file (if it was opened), the exception that ended
  the command (if any), and the state of the collaborator. A missing input file and a
  column that is not in the header end in \<open>typer.Exit\<close>; \<open>column not in None\<close> (a file
  without header) is a \<open>TypeError\<close>. The code point 44 is the comma.
\<close>

definition process_csv ::
  "collaborator \<Rightarrow> csv_file option \<Rightarrow> pystr \<Rightarrow> pystr \<Rightarrow> cls_state \<Rightarrow>
     out_file option \<times> pyexn option \<times> cls_state" where
  "process_csv cl input_file column tags s =
    (let candidate_tags = map strip (split_on 44 tags) in
     case input_file of
       None \<Rightarrow> (None, Some Exit, s)
     | Some infile \<Rightarrow>
         (case fieldnames infile of
            None \<Rightarrow> (None, Some TypeError, s)
          | Some original_headers \<Rightarrow>
              if column \<notin> set original_headers then (None, Some Exit, s)
              else
                (let new_headers = original_headers @ [py ''Predicted_Tag'', py ''Confidence_Score''];
                     rows = read_rows infile
                 in case process_rows cl new_headers column candidate_tags rows s of
                      (out, err, s') \<Rightarrow>
                        (Some \<lparr>out_header = new_headers, out_rows = out\<rparr>, err, s'))))"

section \<open>The decision policy of the clean stage, as the specification words it\<close>

datatype status = AUTO_FIXED | VERIFIED | NEEDS_REVIEW

fun status_str :: "status \<Rightarrow> pystr" where
  "status_str AUTO_FIXED = py ''AUTO_FIXED''"
| "status_str VERIFIED = py ''VERIFIED''"
| "status_str NEEDS_REVIEW = py ''NEEDS_REVIEW''"

text \<open>
  The reference policy in its precedence order, over the trimmed category, the trimmed
  predicted label and the parsed confidence; \<open>comparisonMap\<close> is \<open>TAG_MAP\<close> and
  \<open>finalMap\<close> is \<open>SHORT_TAG_MAP\<close>.
\<close>

definition policy_spec :: "pystr \<Rightarrow> pystr \<Rightarrow> pyfloat \<Rightarrow> status \<times> pystr" where
  "policy_spec original_category predicted_label confidence =
    (let predicted_short =
           (case map_of TAG_MAP predicted_label of None \<Rightarrow> predicted_label | Some v \<Rightarrow> v)
     in
     if float_gt confidence lit_0_85 \<and> original_category \<noteq> predicted_short then
       (case map_of SHORT_TAG_MAP predicted_label of
          Some t \<Rightarrow> if t \<noteq> py ''None'' then (AUTO_FIXED, t) else (VERIFIED, original_category)
        | None \<Rightarrow> (VERIFIED, original_category))
     else if float_lt confidence lit_0_5 then (NEEDS_REVIEW, original_category)
     else (VERIFIED, original_category))"

text \<open>What \<open>clean\<close> assigned to a row: its \<open>Audit_Status\<close> and its \<open>Final_Tag\<close>.\<close>

definition assigned :: "pyexn + stats \<times> row \<Rightarrow> pyexn + pyval option \<times> pyval option" where
  "assigned res =
    (case res of
       Inl e \<Rightarrow> Inl e
     | Inr (st, r) \<Rightarrow> Inr (map_of r (col ''Audit_Status''), map_of r (col ''Final_Tag'')))"

section \<open>Notions used to state the claims about the audit stage\<close>

text \<open>
  \<open>is_match\<close> of the loop of \<open>audit\<close>, as a property of the row: its trimmed category
  equals the short form of its trimmed prediction.
\<close>

definition is_match :: "row \<Rightarrow> bool" where
  "is_match r \<longleftrightarrow>
    (case (str_strip (dict_get r (col ''Category'') (Str [])),
           str_strip (dict_get r (col ''Predicted_Tag'') (Str []))) of
       (Inr original_category, Inr predicted_label) \<Rightarrow>
         original_category =
           (case map_of TAG_MAP predicted_label of None \<Rightarrow> predicted_label | Some v \<Rightarrow> v)
     | _ \<Rightarrow> False)"

definition confidence_above :: "(pystr \<Rightarrow> pyfloat option) \<Rightarrow> pyfloat \<Rightarrow> row \<Rightarrow> bool" where
  "confidence_above pf t r \<longleftrightarrow>
     (case parse_confidence pf r of Inr c \<Rightarrow> float_gt c t | Inl e \<Rightarrow> False)"

definition confidence_below :: "(pystr \<Rightarrow> pyfloat option) \<Rightarrow> pyfloat \<Rightarrow> row \<Rightarrow> bool" where
  "confidence_below pf t r \<longleftrightarrow>
     (case parse_confidence pf r of Inr c \<Rightarrow> float_lt c t | Inl e \<Rightarrow> False)"

definition how_many :: "('a \<Rightarrow> bool) \<Rightarrow> 'a list \<Rightarrow> int" where
  "how_many P xs = int (length (filter P xs))"

text \<open>
  A confidence that is missing or cannot be parsed: the row has no such key, or
  \<open>float\<close> raises on the value (a string that is no number, or \<open>None\<close> in a record that
  ends early).
\<close>

definition malformed_confidence :: "(pystr \<Rightarrow> pyfloat option) \<Rightarrow> row \<Rightarrow> bool" where
  "malformed_confidence pf r \<longleftrightarrow>
    (case map_of r (col ''Confidence_Score'') of
       None \<Rightarrow> True
     | Some v \<Rightarrow> (case py_float pf v of Inl e \<Rightarrow> True | Inr f \<Rightarrow> False))"

section \<open>Notions used to state the claims about the process command\<close>

text \<open>
  The row after the \<open>try\<close> statement of \<open>process_csv\<close>: with the winner and its score
  when the classification returned, with the error marker when it raised.
\<close>

definition marked :: "row \<Rightarrow> pyexn + pystr \<times> pyfloat \<Rightarrow> row" where
  "marked r res =
    (case res of
       Inr (winner_tag, winner_score) \<Rightarrow>
         dict_set (dict_set r (col ''Predicted_Tag'') (Str winner_tag))
           (col ''Confidence_Score'') (Flt winner_score)
     | Inl e \<Rightarrow>
         dict_set (dict_set r (col ''Predicted_Tag'') (Str (py ''ERROR'')))
           (col ''Confidence_Score'') (Str (py ''0.0'')))"

section \<open>Example inputs\<close>

text \<open>The doubles nearest to 0.95, 0.9 and 0.4.\<close>

definition lit_0_95 :: pyfloat where
  "lit_0_95 = Fin (4278419646001971 / 4503599627370496)"

definition lit_0_9 :: pyfloat where
  "lit_0_9 = Fin (8106479329266893 / 9007199254740992)"

definition lit_0_4 :: pyfloat where
  "lit_0_4 = Fin (3602879701896397 / 9007199254740992)"

text \<open>
  A string conversion for the examples: it knows three decimals, with the doubles that
  \<open>float\<close> gives for them, and rejects every other string.
\<close>

definition example_float :: "pystr \<Rightarrow> pyfloat option" where
  "example_float s =
    (if s = py ''0.90'' then Some lit_0_9
     else if s = py ''0.95'' then Some lit_0_95
     else if s = py ''0.40'' then Some lit_0_4
     else None)"

definition example_header :: "pystr list" where
  "example_header = [py ''Name'', py ''Category'', py ''Predicted_Tag'', py ''Confidence_Score'']"

definition row_auto_fix :: row where
  "row_auto_fix = dict_row example_header
     [py ''Acme'', py ''Real Estate'', py ''Legal Services and Immigration Consultants'', py ''0.90'']"

definition row_no_match :: row where
  "row_no_match = dict_row example_header
     [py ''Acme'', py ''Real Estate'', py ''None of the above'', py ''0.95'']"

definition row_needs_review :: row where
  "row_needs_review = dict_row example_header
     [py ''Acme'', py '' Finance & Tax'', py ''Chartered Accountants and Tax Consultants'', py ''0.40'']"

definition row_auto_fix_other :: row where
  \<comment> \<open>another name, a further column, blanks around the category\<close>
  "row_auto_fix_other = dict_row (py ''Phone'' # example_header)
     [py ''555'', py ''Zenith'', py '' Real Estate  '',
      py ''Legal Services and Immigration Consultants'', py ''0.90'']"

definition row_short :: row where
  \<comment> \<open>a record that ends before the confidence column\<close>
  "row_short = dict_row example_header [py ''Acme'', py ''Real Estate'', py ''Real Estate'']"

definition row_short_mismatch :: row where
  "row_short_mismatch = dict_row example_header
     [py ''Acme'', py ''Real Estate'', py ''Legal Services and Immigration Consultants'']"

definition row_not_a_number :: row where
  "row_not_a_number = dict_row example_header
     [py ''Acme'', py ''Real Estate'', py ''Real Estate Agency and Property Rentals'', py ''high'']"

definition cls_state0 :: cls_state where
  "cls_state0 = \<lparr>loaded = False, load_attempts = 0, calls = []\<rparr>"

definition failing_collaborator :: collaborator where
  \<comment> \<open>the model never loads\<close>
  "failing_collaborator =
     \<lparr>load_model = (\<lambda>n. Some (LibraryError 1)),
      classify = (\<lambda>n text candidates. Inl (LibraryError 2))\<rparr>"

definition example_collaborator :: collaborator where
  \<comment> \<open>fails on the text \<open>boom\<close>, else ranks the candidates as they come\<close>
  "example_collaborator =
     \<lparr>load_model = (\<lambda>n. None),
      classify = (\<lambda>n text candidates.
         if text = py ''boom'' then Inl (LibraryError 2)
         else Inr \<lparr>labels = candidates, scores = map (\<lambda>l. lit_0_9) candidates\<rparr>)\<rparr>"

definition example_input :: csv_file where
  "example_input =
     \<lparr>fieldnames = Some [py ''text''],
      records = [[py ''lawyers''], [py ''boom''], [py ''  '']]\<rparr>"

definition long_row_input :: csv_file where
  \<comment> \<open>a record with one field more than the header\<close>
  "long_row_input =
     \<lparr>fieldnames = Some [py ''text''], records = [[py ''boom'', py ''extra'']]\<rparr>"

definition stats0 :: stats where
  "stats0 = \<lparr>stats_auto_fixed = 0, stats_verified = 0, stats_low_conf = 0, stats_total = 0\<rparr>"

section \<open>Strings, tables and dictionaries\<close>

lemma py_inj: "py a = py b \<longleftrightarrow> a = b"
  unfolding py_def by (simp add: inj_map_eq_map inj_on_def)

lemma py_Nil: "py s = [] \<longleftrightarrow> s = []" "[] = py s \<longleftrightarrow> s = []"
  by (auto simp: py_def)

lemma status_str_inj: "status_str a = status_str b \<longleftrightarrow> a = b"
  by (cases a; cases b) (simp_all add: py_inj)

lemma SHORT_TAG_MAP_nonempty: "map_of SHORT_TAG_MAP k = Some v \<Longrightarrow> v \<noteq> []"
  by (drule map_of_SomeD) (auto simp: SHORT_TAG_MAP_def py_Nil)

lemma SHORT_TAG_MAP_NONE_TAG: "map_of SHORT_TAG_MAP NONE_TAG = Some (py ''None'')"
  by (simp add: SHORT_TAG_MAP_def NONE_TAG_def py_inj)

lemma map_of_dict_set: "map_of (dict_set d k v) k' = (if k' = k then Some v else map_of d k')"
  by (simp add: dict_set_def update_conv')

lemma dict_get_dict_set:
  "dict_get (dict_set d k v) k' dflt = (if k' = k then v else dict_get d k' dflt)"
  by (simp add: dict_get_def map_of_dict_set)

section \<open>Confidence parsing\<close>

lemma py_float_errors: "py_float pf v = Inl e \<Longrightarrow> e = ValueError \<or> e = TypeError"
  by (cases v) (auto split: option.splits)

lemma parse_confidence_total: "\<exists>f. parse_confidence pf r = Inr f"
  by (cases "py_float pf (dict_get r (col ''Confidence_Score'') (Flt lit_0_0))")
     (auto simp: parse_confidence_def dest: py_float_errors)

section \<open>The clean stage\<close>

lemma clean_row_policy:
  assumes "str_strip (dict_get r (col ''Category'') (Str [])) = Inr original"
      and "str_strip (dict_get r (col ''Predicted_Tag'') (Str [])) = Inr predicted"
      and "parse_confidence pf r = Inr confidence"
  shows "\<exists>st'. clean_row pf st r =
           Inr (st', dict_set (dict_set r (col ''Final_Tag'')
                                (Str (snd (policy_spec original predicted confidence))))
                       (col ''Audit_Status'')
                       (Str (status_str (fst (policy_spec original predicted confidence)))))"
proof (cases "map_of SHORT_TAG_MAP predicted")
  case None
  with assms show ?thesis
    by (simp add: clean_row_def policy_spec_def Let_def)
next
  case (Some t)
  then have "t \<noteq> []" by (rule SHORT_TAG_MAP_nonempty)
  with Some assms show ?thesis
    by (simp add: clean_row_def policy_spec_def Let_def)
qed

lemma cols_distinct:
  "col ''Final_Tag'' \<noteq> col ''Audit_Status''"
  "col ''Category'' \<noteq> col ''Audit_Status''" "col ''Category'' \<noteq> col ''Final_Tag''"
  "col ''Predicted_Tag'' \<noteq> col ''Audit_Status''" "col ''Predicted_Tag'' \<noteq> col ''Final_Tag''"
  "col ''Confidence_Score'' \<noteq> col ''Audit_Status''" "col ''Confidence_Score'' \<noteq> col ''Final_Tag''"
  by (simp_all add: py_inj)

lemma clean_row_assigned:
  assumes "str_strip (dict_get r (col ''Category'') (Str [])) = Inr original"
      and "str_strip (dict_get r (col ''Predicted_Tag'') (Str [])) = Inr predicted"
      and "parse_confidence pf r = Inr confidence"
  shows "assigned (clean_row pf st r) =
           Inr (Some (Str (status_str (fst (policy_spec original predicted confidence)))),
                Some (Str (snd (policy_spec original predicted confidence))))"
proof -
  from clean_row_policy [OF assms, of st] obtain st' where
    "clean_row pf st r =
       Inr (st', dict_set (dict_set r (col ''Final_Tag'')
                            (Str (snd (policy_spec original predicted confidence))))
                   (col ''Audit_Status'')
                   (Str (status_str (fst (policy_spec original predicted confidence)))))"
    by blast
  then show ?thesis
    using cols_distinct(1) by (simp add: assigned_def map_of_dict_set)
qed

lemma clean_row_Inl_Category:
  "str_strip (dict_get r (col ''Category'') (Str [])) = Inl e \<Longrightarrow> clean_row pf st r = Inl e"
  by (simp add: clean_row_def)

lemma clean_row_Inl_Predicted:
  "str_strip (dict_get r (col ''Category'') (Str [])) = Inr original \<Longrightarrow>
   str_strip (dict_get r (col ''Predicted_Tag'') (Str [])) = Inl e \<Longrightarrow> clean_row pf st r = Inl e"
  by (simp add: clean_row_def)

lemma clean_row_InrD:
  assumes "clean_row pf st r = Inr (st', r')"
  obtains original predicted confidence where
    "str_strip (dict_get r (col ''Category'') (Str [])) = Inr original"
    "str_strip (dict_get r (col ''Predicted_Tag'') (Str [])) = Inr predicted"
    "parse_confidence pf r = Inr confidence"
proof -
  obtain confidence where c: "parse_confidence pf r = Inr confidence"
    using parse_confidence_total by blast
  show thesis
  proof (cases "str_strip (dict_get r (col ''Category'') (Str []))")
    case (Inl e)
    with assms show ?thesis by (simp add: clean_row_Inl_Category)
  next
    case o: (Inr original)
    show ?thesis
    proof (cases "str_strip (dict_get r (col ''Predicted_Tag'') (Str []))")
      case (Inl e)
      with assms o show ?thesis by (simp add: clean_row_Inl_Predicted)
    next
      case (Inr predicted)
      with o c that show ?thesis by blast
    qed
  qed
qed

lemma policy_spec_cases:
  "policy_spec original predicted confidence =
    (if float_gt confidence lit_0_85 \<and>
        original \<noteq> (case map_of TAG_MAP predicted of None \<Rightarrow> predicted | Some v \<Rightarrow> v) \<and>
        (\<exists>t. map_of SHORT_TAG_MAP predicted = Some t \<and> t \<noteq> py ''None'')
     then (AUTO_FIXED, the (map_of SHORT_TAG_MAP predicted))
     else if (\<not> (float_gt confidence lit_0_85 \<and>
                 original \<noteq> (case map_of TAG_MAP predicted of None \<Rightarrow> predicted | Some v \<Rightarrow> v)))
             \<and> float_lt confidence lit_0_5
     then (NEEDS_REVIEW, original)
     else (VERIFIED, original))"
  by (auto simp: policy_spec_def Let_def split: option.splits)

lemma clean_row_fields:
  assumes "clean_row pf st r = Inr (st', r')"
      and "str_strip (dict_get r (col ''Category'') (Str [])) = Inr original"
      and "str_strip (dict_get r (col ''Predicted_Tag'') (Str [])) = Inr predicted"
      and "parse_confidence pf r = Inr confidence"
  shows "map_of r' (col ''Audit_Status'') =
           Some (Str (status_str (fst (policy_spec original predicted confidence))))"
    and "map_of r' (col ''Final_Tag'') = Some (Str (snd (policy_spec original predicted confidence)))"
  using clean_row_assigned [OF assms(2-4), of st] assms(1)
  by (simp_all add: assigned_def)

lemma assigned_clean_row:
  "assigned (clean_row pf st r) =
    (case str_strip (dict_get r (col ''Category'') (Str [])) of
       Inl e \<Rightarrow> Inl e
     | Inr original \<Rightarrow>
    (case str_strip (dict_get r (col ''Predicted_Tag'') (Str [])) of
       Inl e \<Rightarrow> Inl e
     | Inr predicted \<Rightarrow>
    (case parse_confidence pf r of
       Inl e \<Rightarrow> Inl e
     | Inr confidence \<Rightarrow>
         Inr (Some (Str (status_str (fst (policy_spec original predicted confidence)))),
              Some (Str (snd (policy_spec original predicted confidence)))))))"
proof (cases "str_strip (dict_get r (col ''Category'') (Str []))")
  case (Inl e)
  then show ?thesis by (simp add: clean_row_Inl_Category assigned_def)
next
  case o: (Inr original)
  show ?thesis
  proof (cases "str_strip (dict_get r (col ''Predicted_Tag'') (Str []))")
    case (Inl e)
    with o show ?thesis by (simp add: clean_row_Inl_Predicted assigned_def)
  next
    case p: (Inr predicted)
    obtain confidence where c: "parse_confidence pf r = Inr confidence"
      using parse_confidence_total by blast
    from clean_row_assigned [OF o p c] o p c show ?thesis by simp
  qed
qed

lemmas example_defs =
  row_auto_fix_def row_no_match_def row_needs_review_def row_short_def row_auto_fix_other_def
  row_short_mismatch_def row_not_a_number_def
  example_header_def example_float_def dict_row_def dict_get_def dict_set_def py_def
  strip_def isspace_def parse_confidence_def

lemma row_auto_fix_fields:
  "str_strip (dict_get row_auto_fix (col ''Category'') (Str [])) = Inr (py ''Real Estate'')"
  "str_strip (dict_get row_auto_fix (col ''Predicted_Tag'') (Str [])) =
     Inr (py ''Legal Services and Immigration Consultants'')"
  "parse_confidence example_float row_auto_fix = Inr lit_0_9"
  by (simp_all add: example_defs)

lemma row_auto_fix_other_fields:
  "str_strip (dict_get row_auto_fix_other (col ''Category'') (Str [])) = Inr (py ''Real Estate'')"
  "str_strip (dict_get row_auto_fix_other (col ''Predicted_Tag'') (Str [])) =
     Inr (py ''Legal Services and Immigration Consultants'')"
  "parse_confidence example_float row_auto_fix_other = Inr lit_0_9"
  by (simp_all add: example_defs)

lemma row_no_match_fields:
  "str_strip (dict_get row_no_match (col ''Category'') (Str [])) = Inr (py ''Real Estate'')"
  "str_strip (dict_get row_no_match (col ''Predicted_Tag'') (Str [])) = Inr (py ''None of the above'')"
  "parse_confidence example_float row_no_match = Inr lit_0_95"
  by (simp_all add: example_defs)

lemma row_needs_review_fields:
  "str_strip (dict_get row_needs_review (col ''Category'') (Str [])) = Inr (py ''Finance & Tax'')"
  "str_strip (dict_get row_needs_review (col ''Predicted_Tag'') (Str [])) =
     Inr (py ''Chartered Accountants and Tax Consultants'')"
  "parse_confidence example_float row_needs_review = Inr lit_0_4"
  by (simp_all add: example_defs)

lemma policy_spec_auto_fix:
  "policy_spec (py ''Real Estate'') (py ''Legal Services and Immigration Consultants'') lit_0_9 =
     (AUTO_FIXED, py ''Legal'')"
  by (simp add: policy_spec_def TAG_MAP_def SHORT_TAG_MAP_def py_inj lit_0_9_def lit_0_85_def
        float_gt_def)

lemma policy_spec_no_match:
  "float_gt c lit_0_85 \<Longrightarrow>
   policy_spec (py ''Real Estate'') (py ''None of the above'') c = (VERIFIED, py ''Real Estate'')"
  by (simp add: policy_spec_def TAG_MAP_def SHORT_TAG_MAP_def py_inj)

lemma policy_spec_needs_review:
  "policy_spec (py ''Finance & Tax'') (py ''Chartered Accountants and Tax Consultants'') lit_0_4 =
     (NEEDS_REVIEW, py ''Finance & Tax'')"
  by (simp add: policy_spec_def TAG_MAP_def SHORT_TAG_MAP_def py_inj lit_0_4_def lit_0_85_def
        lit_0_5_def float_gt_def)

lemma lit_0_95_gt: "float_gt lit_0_95 lit_0_85"
  by (simp add: lit_0_95_def lit_0_85_def float_gt_def)

section \<open>Claims about the clean stage\<close>

text \<open>
  C1. For every row whose \<open>Category\<close> and \<open>Predicted_Tag\<close> can be trimmed (they are
  strings or absent), with \<open>original_category\<close> the trimmed category, \<open>predicted_label\<close>
  the trimmed prediction and \<open>confidence\<close> the parsed score, the loop body of \<open>clean\<close>
  returns, and the \<open>Audit_Status\<close> and \<open>Final_Tag\<close> it stores are those of the reference
  policy in its precedence order. The status stored is exactly one of the three.
\<close>

theorem clean_row_refines_policy:
  assumes "str_strip (dict_get r (col ''Category'') (Str [])) = Inr original_category"
      and "str_strip (dict_get r (col ''Predicted_Tag'') (Str [])) = Inr predicted_label"
      and "parse_confidence pf r = Inr confidence"
  shows "\<exists>st' r'. clean_row pf st r = Inr (st', r') \<and>
           map_of r' (col ''Audit_Status'') =
             Some (Str (status_str (fst (policy_spec original_category predicted_label confidence)))) \<and>
           map_of r' (col ''Final_Tag'') =
             Some (Str (snd (policy_spec original_category predicted_label confidence))) \<and>
           (\<exists>!s. map_of r' (col ''Audit_Status'') = Some (Str (status_str s)))"
proof -
  from clean_row_policy [OF assms, of st] obtain st' r' where
    eq: "clean_row pf st r = Inr (st', r')"
    by blast
  note f = clean_row_fields [OF eq assms]
  have "\<exists>!s. map_of r' (col ''Audit_Status'') = Some (Str (status_str s))"
    unfolding f by (auto simp: status_str_inj)
  with eq f show ?thesis by blast
qed

theorem clean_row_refines_policy_witness:
  "str_strip (dict_get row_auto_fix (col ''Category'') (Str [])) = Inr (py ''Real Estate'') \<and>
   str_strip (dict_get row_auto_fix (col ''Predicted_Tag'') (Str [])) =
     Inr (py ''Legal Services and Immigration Consultants'') \<and>
   parse_confidence example_float row_auto_fix = Inr lit_0_9 \<and>
   (\<exists>st' r'. clean_row example_float stats0 row_auto_fix = Inr (st', r') \<and>
      map_of r' (col ''Audit_Status'') = Some (Str (py ''AUTO_FIXED'')) \<and>
      map_of r' (col ''Final_Tag'') = Some (Str (py ''Legal'')))"
  using clean_row_refines_policy [OF row_auto_fix_fields, of stats0] row_auto_fix_fields
  unfolding policy_spec_auto_fix by auto

lemma float_le_not_gt: "float_le a b \<Longrightarrow> \<not> float_gt a b"
  by (cases a; cases b) (simp_all add: float_gt_def)

lemma clean_row_returns:
  assumes "str_strip (dict_get r (col ''Category'') (Str [])) = Inr original"
      and "str_strip (dict_get r (col ''Predicted_Tag'') (Str [])) = Inr predicted"
  shows "\<exists>st' r'. clean_row pf st r = Inr (st', r')"
proof -
  obtain confidence where "parse_confidence pf r = Inr confidence"
    using parse_confidence_total by blast
  from clean_row_policy [OF assms this] show ?thesis by blast
qed

text \<open>
  C2. For every row that the loop body of \<open>clean\<close> processed: if the \<open>Audit_Status\<close> is
  \<open>AUTO_FIXED\<close>, the \<open>Final_Tag\<close> is the entry of \<open>SHORT_TAG_MAP\<close> for the predicted label
  and is not \<open>None\<close> (the token); with any other status the \<open>Final_Tag\<close> is the trimmed
  category, unchanged. So the \<open>Final_Tag\<close> is the trimmed category or a value of
  \<open>SHORT_TAG_MAP\<close>.
\<close>

theorem final_tag_original_or_mapped:
  assumes "clean_row pf st r = Inr (st', r')"
  shows "\<exists>original_category predicted_label.
           str_strip (dict_get r (col ''Category'') (Str [])) = Inr original_category \<and>
           str_strip (dict_get r (col ''Predicted_Tag'') (Str [])) = Inr predicted_label \<and>
           (map_of r' (col ''Audit_Status'') = Some (Str (py ''AUTO_FIXED'')) \<longrightarrow>
              (\<exists>t. map_of SHORT_TAG_MAP predicted_label = Some t \<and>
                   map_of r' (col ''Final_Tag'') = Some (Str t) \<and> t \<noteq> py ''None'')) \<and>
           (map_of r' (col ''Audit_Status'') \<noteq> Some (Str (py ''AUTO_FIXED'')) \<longrightarrow>
              map_of r' (col ''Final_Tag'') = Some (Str original_category)) \<and>
           (map_of r' (col ''Final_Tag'') = Some (Str original_category) \<or>
            (\<exists>t \<in> snd ` set SHORT_TAG_MAP. map_of r' (col ''Final_Tag'') = Some (Str t)))"
proof -
  from assms obtain original predicted confidence where
    h: "str_strip (dict_get r (col ''Category'') (Str [])) = Inr original"
       "str_strip (dict_get r (col ''Predicted_Tag'') (Str [])) = Inr predicted"
       "parse_confidence pf r = Inr confidence"
    by (rule clean_row_InrD)
  note f = clean_row_fields [OF assms h]
  let ?P = "policy_spec original predicted confidence"
  have auto: "fst ?P = AUTO_FIXED \<Longrightarrow>
                \<exists>t. map_of SHORT_TAG_MAP predicted = Some t \<and> snd ?P = t \<and> t \<noteq> py ''None''"
    by (auto simp: policy_spec_cases split: if_splits)
  have other: "fst ?P \<noteq> AUTO_FIXED \<Longrightarrow> snd ?P = original"
    by (auto simp: policy_spec_cases split: if_splits)
  have a: "map_of r' (col ''Audit_Status'') = Some (Str (py ''AUTO_FIXED'')) \<longleftrightarrow> fst ?P = AUTO_FIXED"
    unfolding f using status_str_inj [of "fst ?P" AUTO_FIXED] by simp
  have 1: "map_of r' (col ''Audit_Status'') = Some (Str (py ''AUTO_FIXED'')) \<longrightarrow>
             (\<exists>t. map_of SHORT_TAG_MAP predicted = Some t \<and>
                  map_of r' (col ''Final_Tag'') = Some (Str t) \<and> t \<noteq> py ''None'')"
    unfolding a f(2) using auto by auto
  have 2: "map_of r' (col ''Audit_Status'') \<noteq> Some (Str (py ''AUTO_FIXED'')) \<longrightarrow>
             map_of r' (col ''Final_Tag'') = Some (Str original)"
    unfolding a f(2) using other by auto
  have 3: "map_of r' (col ''Final_Tag'') = Some (Str original) \<or>
           (\<exists>t \<in> snd ` set SHORT_TAG_MAP. map_of r' (col ''Final_Tag'') = Some (Str t))"
  proof (cases "fst ?P = AUTO_FIXED")
    case True
    from auto [OF True] obtain t where
      t: "map_of SHORT_TAG_MAP predicted = Some t" "snd ?P = t" by blast
    from t(1) have "(predicted, t) \<in> set SHORT_TAG_MAP" by (rule map_of_SomeD)
    then have "t \<in> snd ` set SHORT_TAG_MAP" by force
    with t(2) show ?thesis unfolding f(2) by blast
  next
    case False
    with other show ?thesis unfolding f(2) by simp
  qed
  from h(1,2) 1 2 3 show ?thesis by blast
qed

theorem final_tag_original_or_mapped_witness:
  "\<exists>st' r'. clean_row example_float stats0 row_auto_fix = Inr (st', r') \<and>
     map_of r' (col ''Audit_Status'') = Some (Str (py ''AUTO_FIXED'')) \<and>
     map_of r' (col ''Final_Tag'') = Some (Str (py ''Legal''))"
proof -
  obtain st' r' where h: "clean_row example_float stats0 row_auto_fix = Inr (st', r')"
    using clean_row_returns [OF row_auto_fix_fields(1,2)] by blast
  have s: "map_of r' (col ''Audit_Status'') = Some (Str (py ''AUTO_FIXED''))"
    using clean_row_fields(1) [OF h row_auto_fix_fields] by (simp add: policy_spec_auto_fix)
  have m: "map_of SHORT_TAG_MAP (py ''Legal Services and Immigration Consultants'') = Some (py ''Legal'')"
    by (simp add: SHORT_TAG_MAP_def py_inj)
  from final_tag_original_or_mapped [OF h] s m row_auto_fix_fields(2)
  have "map_of r' (col ''Final_Tag'') = Some (Str (py ''Legal''))" by auto
  with h s show ?thesis by blast
qed

text \<open>
  C3. A row becomes \<open>AUTO_FIXED\<close> only when its confidence is above 0.85, its trimmed
  category differs from the short form of the prediction, and \<open>SHORT_TAG_MAP\<close> maps the
  prediction to a value other than \<open>None\<close> (the token). So a confidence of at most 0.85 or
  an agreeing category never gives \<open>AUTO_FIXED\<close>, nor does an unmapped label or the
  no-match label, whatever the confidence: the category \<open>Real Estate\<close> with the prediction
  \<open>None of the above\<close> at 0.95 is \<open>VERIFIED\<close> and keeps \<open>Real Estate\<close>.
\<close>

theorem auto_fixed_only_if:
  assumes "str_strip (dict_get r (col ''Category'') (Str [])) = Inr original_category"
      and "str_strip (dict_get r (col ''Predicted_Tag'') (Str [])) = Inr predicted_label"
      and "parse_confidence pf r = Inr confidence"
  shows "\<exists>st' r'. clean_row pf st r = Inr (st', r') \<and>
           (map_of r' (col ''Audit_Status'') = Some (Str (py ''AUTO_FIXED'')) \<longrightarrow>
              float_gt confidence lit_0_85 \<and>
              original_category \<noteq>
                (case map_of TAG_MAP predicted_label of None \<Rightarrow> predicted_label | Some v \<Rightarrow> v) \<and>
              (\<exists>t. map_of SHORT_TAG_MAP predicted_label = Some t \<and> t \<noteq> py ''None'')) \<and>
           (float_le confidence lit_0_85 \<or>
            original_category =
              (case map_of TAG_MAP predicted_label of None \<Rightarrow> predicted_label | Some v \<Rightarrow> v) \<longrightarrow>
              map_of r' (col ''Audit_Status'') \<noteq> Some (Str (py ''AUTO_FIXED''))) \<and>
           (map_of SHORT_TAG_MAP predicted_label = None \<or> predicted_label = NONE_TAG \<longrightarrow>
              map_of r' (col ''Audit_Status'') \<noteq> Some (Str (py ''AUTO_FIXED''))) \<and>
           (original_category = py ''Real Estate'' \<and> predicted_label = py ''None of the above'' \<and>
            confidence = lit_0_95 \<longrightarrow>
              map_of r' (col ''Audit_Status'') = Some (Str (py ''VERIFIED'')) \<and>
              map_of r' (col ''Final_Tag'') = Some (Str (py ''Real Estate'')))"
proof -
  from clean_row_returns [OF assms(1,2)] obtain st' r' where
    eq: "clean_row pf st r = Inr (st', r')" by blast
  note f = clean_row_fields [OF eq assms]
  let ?P = "policy_spec original_category predicted_label confidence"
  let ?short = "case map_of TAG_MAP predicted_label of None \<Rightarrow> predicted_label | Some v \<Rightarrow> v"
  have a: "map_of r' (col ''Audit_Status'') = Some (Str (py ''AUTO_FIXED'')) \<longleftrightarrow> fst ?P = AUTO_FIXED"
    unfolding f using status_str_inj [of "fst ?P" AUTO_FIXED] by simp
  have only_if: "fst ?P = AUTO_FIXED \<longleftrightarrow>
                   float_gt confidence lit_0_85 \<and> original_category \<noteq> ?short \<and>
                   (\<exists>t. map_of SHORT_TAG_MAP predicted_label = Some t \<and> t \<noteq> py ''None'')"
    by (simp add: policy_spec_cases)
  have 1: "map_of r' (col ''Audit_Status'') = Some (Str (py ''AUTO_FIXED'')) \<longrightarrow>
             float_gt confidence lit_0_85 \<and> original_category \<noteq> ?short \<and>
             (\<exists>t. map_of SHORT_TAG_MAP predicted_label = Some t \<and> t \<noteq> py ''None'')"
    unfolding a only_if by simp
  have 2: "float_le confidence lit_0_85 \<or> original_category = ?short \<longrightarrow>
             map_of r' (col ''Audit_Status'') \<noteq> Some (Str (py ''AUTO_FIXED''))"
    unfolding a only_if using float_le_not_gt [of confidence lit_0_85] by blast
  have 3: "map_of SHORT_TAG_MAP predicted_label = None \<or> predicted_label = NONE_TAG \<longrightarrow>
             map_of r' (col ''Audit_Status'') \<noteq> Some (Str (py ''AUTO_FIXED''))"
    unfolding a only_if using SHORT_TAG_MAP_NONE_TAG by auto
  have 4: "original_category = py ''Real Estate'' \<and> predicted_label = py ''None of the above'' \<and>
           confidence = lit_0_95 \<longrightarrow>
             map_of r' (col ''Audit_Status'') = Some (Str (py ''VERIFIED'')) \<and>
             map_of r' (col ''Final_Tag'') = Some (Str (py ''Real Estate''))"
    unfolding f using policy_spec_no_match [OF lit_0_95_gt] by auto
  from eq 1 2 3 4 show ?thesis by blast
qed

theorem auto_fixed_only_if_witness:
  "str_strip (dict_get row_no_match (col ''Category'') (Str [])) = Inr (py ''Real Estate'') \<and>
   str_strip (dict_get row_no_match (col ''Predicted_Tag'') (Str [])) = Inr (py ''None of the above'') \<and>
   parse_confidence example_float row_no_match = Inr lit_0_95 \<and>
   (\<exists>st' r'. clean_row example_float stats0 row_no_match = Inr (st', r') \<and>
      map_of r' (col ''Audit_Status'') = Some (Str (py ''VERIFIED'')) \<and>
      map_of r' (col ''Final_Tag'') = Some (Str (py ''Real Estate'')))"
  using auto_fixed_only_if [OF row_no_match_fields, of stats0] row_no_match_fields
  by auto

text \<open>
  C9. The decision of \<open>clean\<close> is idempotent. A cleaned row has the \<open>Category\<close>,
  \<open>Predicted_Tag\<close> and \<open>Confidence_Score\<close> of the row it came from; and \<open>clean\<close>, run on
  any row that has these three columns of a cleaned row (whatever its other columns hold),
  returns and assigns the \<open>Audit_Status\<close> and the \<open>Final_Tag\<close> of the first run.
\<close>

theorem clean_idempotent:
  assumes "clean_row pf st r = Inr (st1, r1)"
      and "\<forall>k \<in> {col ''Category'', col ''Predicted_Tag'', col ''Confidence_Score''}.
             map_of r2 k = map_of r1 k"
  shows "(\<forall>k \<in> {col ''Category'', col ''Predicted_Tag'', col ''Confidence_Score''}.
            map_of r1 k = map_of r k) \<and>
         (\<exists>st2 r3. clean_row pf st' r2 = Inr (st2, r3) \<and>
            map_of r3 (col ''Audit_Status'') = map_of r1 (col ''Audit_Status'') \<and>
            map_of r3 (col ''Final_Tag'') = map_of r1 (col ''Final_Tag''))"
proof -
  from assms(1) obtain original predicted confidence where
    h: "str_strip (dict_get r (col ''Category'') (Str [])) = Inr original"
       "str_strip (dict_get r (col ''Predicted_Tag'') (Str [])) = Inr predicted"
       "parse_confidence pf r = Inr confidence"
    by (rule clean_row_InrD)
  from clean_row_policy [OF h, of st] assms(1) have
    r1: "r1 = dict_set (dict_set r (col ''Final_Tag'')
                          (Str (snd (policy_spec original predicted confidence))))
                (col ''Audit_Status'')
                (Str (status_str (fst (policy_spec original predicted confidence))))"
    by auto
  have same: "\<forall>k \<in> {col ''Category'', col ''Predicted_Tag'', col ''Confidence_Score''}.
                map_of r1 k = map_of r k"
    unfolding r1 using cols_distinct by (simp add: map_of_dict_set)
  with assms(2) have r2: "map_of r2 (col ''Category'') = map_of r (col ''Category'')"
    "map_of r2 (col ''Predicted_Tag'') = map_of r (col ''Predicted_Tag'')"
    "map_of r2 (col ''Confidence_Score'') = map_of r (col ''Confidence_Score'')"
    by simp_all
  have h2: "str_strip (dict_get r2 (col ''Category'') (Str [])) = Inr original"
       "str_strip (dict_get r2 (col ''Predicted_Tag'') (Str [])) = Inr predicted"
       "parse_confidence pf r2 = Inr confidence"
    using h r2 by (simp_all add: dict_get_def parse_confidence_def)
  from clean_row_returns [OF h2(1,2)] obtain st2 r3 where
    eq: "clean_row pf st' r2 = Inr (st2, r3)" by blast
  from clean_row_fields [OF eq h2] clean_row_fields [OF assms(1) h]
  have "map_of r3 (col ''Audit_Status'') = map_of r1 (col ''Audit_Status'')"
       "map_of r3 (col ''Final_Tag'') = map_of r1 (col ''Final_Tag'')"
    by simp_all
  with eq same show ?thesis by blast
qed

theorem clean_idempotent_witness:
  "\<exists>st1 r1. clean_row example_float stats0 row_auto_fix = Inr (st1, r1) \<and>
     (\<exists>st2 r3. clean_row example_float stats0 r1 = Inr (st2, r3) \<and>
        map_of r3 (col ''Audit_Status'') = Some (Str (py ''AUTO_FIXED'')) \<and>
        map_of r3 (col ''Final_Tag'') = Some (Str (py ''Legal'')))"
proof -
  obtain st1 r1 where h: "clean_row example_float stats0 row_auto_fix = Inr (st1, r1)"
    using clean_row_returns [OF row_auto_fix_fields(1,2)] by blast
  have s: "map_of r1 (col ''Audit_Status'') = Some (Str (py ''AUTO_FIXED''))"
          "map_of r1 (col ''Final_Tag'') = Some (Str (py ''Legal''))"
    using clean_row_fields [OF h row_auto_fix_fields] by (simp_all add: policy_spec_auto_fix)
  have "\<forall>k \<in> {col ''Category'', col ''Predicted_Tag'', col ''Confidence_Score''}.
          map_of r1 k = map_of r1 k" by simp
  from clean_idempotent [OF h this, of stats0] s h show ?thesis by auto
qed

text \<open>
  C10. The decision of \<open>clean\<close> depends on three things only. Two rows with the same
  trimmed \<open>Category\<close>, the same trimmed \<open>Predicted_Tag\<close> and the same parsed confidence
  are assigned the same \<open>Audit_Status\<close> and \<open>Final_Tag\<close> (or fail alike), whatever the
  \<open>Name\<close>, the other columns and the counters are.
\<close>

theorem clean_decision_noninterference:
  assumes "str_strip (dict_get r1 (col ''Category'') (Str [])) =
           str_strip (dict_get r2 (col ''Category'') (Str []))"
      and "str_strip (dict_get r1 (col ''Predicted_Tag'') (Str [])) =
           str_strip (dict_get r2 (col ''Predicted_Tag'') (Str []))"
      and "parse_confidence pf r1 = parse_confidence pf r2"
  shows "assigned (clean_row pf st1 r1) = assigned (clean_row pf st2 r2)"
  by (simp only: assigned_clean_row assms)

theorem clean_decision_noninterference_witness:
  "map_of row_auto_fix (col ''Name'') \<noteq> map_of row_auto_fix_other (col ''Name'') \<and>
   map_of row_auto_fix (col ''Phone'') \<noteq> map_of row_auto_fix_other (col ''Phone'') \<and>
   assigned (clean_row example_float stats0 row_auto_fix) =
     Inr (Some (Str (py ''AUTO_FIXED'')), Some (Str (py ''Legal''))) \<and>
   assigned (clean_row example_float stats0 row_auto_fix_other) =
     Inr (Some (Str (py ''AUTO_FIXED'')), Some (Str (py ''Legal'')))"
proof -
  have n: "map_of row_auto_fix (col ''Name'') \<noteq> map_of row_auto_fix_other (col ''Name'')"
          "map_of row_auto_fix (col ''Phone'') \<noteq> map_of row_auto_fix_other (col ''Phone'')"
    by (simp_all add: example_defs)
  have a: "assigned (clean_row example_float stats0 row_auto_fix) =
             Inr (Some (Str (py ''AUTO_FIXED'')), Some (Str (py ''Legal'')))"
    using clean_row_assigned [OF row_auto_fix_fields, of stats0]
    by (simp add: policy_spec_auto_fix)
  have "assigned (clean_row example_float stats0 row_auto_fix) =
        assigned (clean_row example_float stats0 row_auto_fix_other)"
    by (rule clean_decision_noninterference)
       (simp_all only: row_auto_fix_fields row_auto_fix_other_fields)
  with n a show ?thesis by simp
qed

section \<open>The audit stage\<close>

lemma how_many_simps:
  "how_many P [] = 0"
  "how_many P (x # xs) = (if P x then 1 else 0) + how_many P xs"
  by (simp_all add: how_many_def)

lemma how_many_nonneg: "0 \<le> how_many P xs"
  by (simp add: how_many_def)

lemma how_many_conj_le: "how_many (\<lambda>x. P x \<and> Q x) xs \<le> how_many P xs"
  by (induction xs) (auto simp: how_many_simps)

lemma how_many_split: "how_many P xs + how_many (\<lambda>x. \<not> P x) xs = int (length xs)"
  by (induction xs) (auto simp: how_many_simps)

lemma audit_row_counts:
  assumes "audit_row pf c r = Inr c'"
  shows "total c' = total c + 1"
    and "agreements c' = agreements c + (if is_match r then 1 else 0)"
    and "high_conf_agreements c' = high_conf_agreements c +
           (if is_match r \<and> confidence_above pf lit_0_8 r then 1 else 0)"
    and "high_conf_disagreements c' = high_conf_disagreements c +
           (if \<not> is_match r \<and> confidence_above pf lit_0_8 r then 1 else 0)"
    and "low_conf c' = low_conf c + (if confidence_below pf lit_0_5 r then 1 else 0)"
  using assms
  by (auto simp: audit_row_def is_match_def confidence_above_def confidence_below_def Let_def
           split: sum.splits if_splits)

lemma audit_rows_counts:
  assumes "audit_rows pf c rs = Inr c'"
  shows "total c' = total c + int (length rs) \<and>
         agreements c' = agreements c + how_many is_match rs \<and>
         high_conf_agreements c' = high_conf_agreements c +
           how_many (\<lambda>r. is_match r \<and> confidence_above pf lit_0_8 r) rs \<and>
         high_conf_disagreements c' = high_conf_disagreements c +
           how_many (\<lambda>r. \<not> is_match r \<and> confidence_above pf lit_0_8 r) rs \<and>
         low_conf c' = low_conf c + how_many (confidence_below pf lit_0_5) rs"
  using assms
proof (induction rs arbitrary: c)
  case Nil
  then show ?case by (simp add: how_many_simps)
next
  case (Cons r rs)
  from Cons.prems obtain c1 where
    step: "audit_row pf c r = Inr c1" and rest: "audit_rows pf c1 rs = Inr c'"
    by (auto split: sum.splits)
  from Cons.IH [OF rest] audit_row_counts [OF step] show ?case
    by (simp add: how_many_simps)
qed

lemma audit_row_returns:
  assumes "str_strip (dict_get r (col ''Category'') (Str [])) = Inr original"
      and "str_strip (dict_get r (col ''Predicted_Tag'') (Str [])) = Inr predicted"
  shows "\<exists>c'. audit_row pf c r = Inr c'"
proof -
  obtain confidence where "parse_confidence pf r = Inr confidence"
    using parse_confidence_total by blast
  with assms show ?thesis by (simp add: audit_row_def Let_def)
qed

lemma audit_rows_returns:
  assumes "\<forall>r \<in> set rs. \<exists>original predicted.
             str_strip (dict_get r (col ''Category'') (Str [])) = Inr original \<and>
             str_strip (dict_get r (col ''Predicted_Tag'') (Str [])) = Inr predicted"
  shows "\<exists>c'. audit_rows pf c rs = Inr c'"
  using assms
proof (induction rs arbitrary: c)
  case Nil
  then show ?case by simp
next
  case (Cons r rs)
  from Cons.prems obtain original predicted where
    "str_strip (dict_get r (col ''Category'') (Str [])) = Inr original"
    "str_strip (dict_get r (col ''Predicted_Tag'') (Str [])) = Inr predicted"
    by auto
  from audit_row_returns [OF this] obtain c1 where "audit_row pf c r = Inr c1"
    by blast
  moreover from Cons.IH [of c1] Cons.prems obtain c' where "audit_rows pf c1 rs = Inr c'"
    by auto
  ultimately show ?case by simp
qed

lemma row_short_fields:
  "str_strip (dict_get row_short (col ''Category'') (Str [])) = Inr (py ''Real Estate'')"
  "str_strip (dict_get row_short (col ''Predicted_Tag'') (Str [])) = Inr (py ''Real Estate'')"
  "parse_confidence pf row_short = Inr lit_0_0"
  by (simp_all add: example_defs)

lemma row_short_mismatch_fields:
  "str_strip (dict_get row_short_mismatch (col ''Category'') (Str [])) = Inr (py ''Real Estate'')"
  "str_strip (dict_get row_short_mismatch (col ''Predicted_Tag'') (Str [])) =
     Inr (py ''Legal Services and Immigration Consultants'')"
  "parse_confidence pf row_short_mismatch = Inr lit_0_0"
  by (simp_all add: example_defs)

lemma lit_0_0_below: "float_lt lit_0_0 lit_0_5"
  by (simp add: lit_0_0_def lit_0_5_def)

lemma row_short_buckets:
  "is_match row_short" "confidence_below pf lit_0_5 row_short"
  by (simp_all add: is_match_def confidence_below_def row_short_fields lit_0_0_below
        TAG_MAP_def py_inj)

lemma row_short_mismatch_buckets:
  "\<not> is_match row_short_mismatch" "confidence_below pf lit_0_5 row_short_mismatch"
  by (simp_all add: is_match_def confidence_below_def row_short_mismatch_fields lit_0_0_below
        TAG_MAP_def py_inj)

lemma row_auto_fix_buckets:
  "\<not> is_match row_auto_fix" "confidence_above example_float lit_0_8 row_auto_fix"
  "\<not> confidence_below example_float lit_0_5 row_auto_fix"
  by (simp_all add: is_match_def confidence_above_def confidence_below_def row_auto_fix_fields
        TAG_MAP_def py_inj lit_0_9_def lit_0_8_def lit_0_5_def float_gt_def)

lemma row_needs_review_buckets:
  "is_match row_needs_review" "\<not> confidence_above example_float lit_0_8 row_needs_review"
  "confidence_below example_float lit_0_5 row_needs_review"
  by (simp_all add: is_match_def confidence_above_def confidence_below_def row_needs_review_fields
        TAG_MAP_def py_inj lit_0_4_def lit_0_8_def lit_0_5_def float_gt_def)

text \<open>
  C5. Whenever the loop of \<open>audit\<close> finishes, its counters satisfy: \<open>total\<close> is the
  number of rows, \<open>agreements\<close> plus the number of rows that do not match is \<open>total\<close>,
  \<open>high_conf_agreements\<close> is at most \<open>agreements\<close>, \<open>high_conf_disagreements\<close> is at
  most \<open>total - agreements\<close>, and \<open>low_conf\<close> is the number of rows with a confidence
  below 0.5, whether they match or not. One row can count for \<open>low_conf\<close> and for a
  primary bucket at once: a matching row and a row that does not match are given.
\<close>

theorem audit_counters_invariant:
  assumes "audit_rows pf counters0 rows = Inr c"
  shows "total c = int (length rows) \<and>
         agreements c = how_many is_match rows \<and>
         agreements c + how_many (\<lambda>r. \<not> is_match r) rows = total c \<and>
         0 \<le> high_conf_agreements c \<and> high_conf_agreements c \<le> agreements c \<and>
         0 \<le> high_conf_disagreements c \<and>
         high_conf_disagreements c \<le> total c - agreements c \<and>
         low_conf c = how_many (confidence_below pf lit_0_5) rows \<and>
         (\<exists>c1. audit_rows pf counters0 [row_short] = Inr c1 \<and>
               agreements c1 = 1 \<and> low_conf c1 = 1) \<and>
         (\<exists>c2. audit_rows pf counters0 [row_short_mismatch] = Inr c2 \<and>
               total c2 - agreements c2 = 1 \<and> low_conf c2 = 1)"
proof -
  note n = audit_rows_counts [OF assms]
  have t: "total c = int (length rows)" and a: "agreements c = how_many is_match rows"
    and l: "low_conf c = how_many (confidence_below pf lit_0_5) rows"
    and h: "high_conf_agreements c =
              how_many (\<lambda>r. is_match r \<and> confidence_above pf lit_0_8 r) rows"
    and d: "high_conf_disagreements c =
              how_many (\<lambda>r. \<not> is_match r \<and> confidence_above pf lit_0_8 r) rows"
    using n by (simp_all add: counters0_def)
  have s: "agreements c + how_many (\<lambda>r. \<not> is_match r) rows = total c"
    unfolding a t by (rule how_many_split)
  have h': "0 \<le> high_conf_agreements c" "high_conf_agreements c \<le> agreements c"
    unfolding h a by (rule how_many_nonneg, rule how_many_conj_le)
  have "high_conf_disagreements c \<le> how_many (\<lambda>r. \<not> is_match r) rows"
    unfolding d by (rule how_many_conj_le)
  with s have d': "0 \<le> high_conf_disagreements c"
    "high_conf_disagreements c \<le> total c - agreements c"
    unfolding d using how_many_nonneg [of "\<lambda>r. \<not> is_match r \<and> confidence_above pf lit_0_8 r" rows]
    by simp_all
  obtain c1 where c1: "audit_rows pf counters0 [row_short] = Inr c1"
    using audit_rows_returns [of "[row_short]" pf counters0] row_short_fields(1,2) by auto
  from audit_rows_counts [OF c1] have o1: "agreements c1 = 1 \<and> low_conf c1 = 1"
    by (simp add: counters0_def how_many_simps row_short_buckets)
  obtain c2 where c2: "audit_rows pf counters0 [row_short_mismatch] = Inr c2"
    using audit_rows_returns [of "[row_short_mismatch]" pf counters0]
      row_short_mismatch_fields(1,2) by auto
  from audit_rows_counts [OF c2] have o2: "total c2 - agreements c2 = 1 \<and> low_conf c2 = 1"
    by (simp add: counters0_def how_many_simps row_short_mismatch_buckets)
  from t a s h' d' l c1 o1 c2 o2 show ?thesis by blast
qed

theorem audit_counters_invariant_witness:
  "\<exists>c. audit_rows example_float counters0 [row_auto_fix, row_needs_review, row_short_mismatch] = Inr c \<and>
       total c = 3 \<and> agreements c = 1 \<and> high_conf_agreements c \<le> 1 \<and>
       high_conf_disagreements c \<le> 2 \<and> low_conf c = 2"
proof -
  obtain c where
    c: "audit_rows example_float counters0 [row_auto_fix, row_needs_review, row_short_mismatch] = Inr c"
    using audit_rows_returns
      [of "[row_auto_fix, row_needs_review, row_short_mismatch]" example_float counters0]
      row_auto_fix_fields(1,2) row_needs_review_fields(1,2) row_short_mismatch_fields(1,2)
    by auto
  from audit_counters_invariant [OF c] have
    "total c = 3 \<and> agreements c = 1 \<and> high_conf_agreements c \<le> 1 \<and>
     high_conf_disagreements c \<le> 2 \<and> low_conf c = 2"
    by (simp add: how_many_simps row_auto_fix_buckets row_needs_review_buckets
          row_short_mismatch_buckets)
  with c show ?thesis by blast
qed

text \<open>
  C4. On an input without records (a header alone, or an empty file) \<open>audit\<close> has no
  guard: the first percentage divides by \<open>total = 0\<close>, and the command ends with
  \<open>ZeroDivisionError\<close> before it prints any table.
\<close>

theorem audit_zero_rows_raises:
  "audit pf (Some \<lparr>fieldnames = Some example_header, records = []\<rparr>) = Inl ZeroDivisionError \<and>
   audit pf (Some \<lparr>fieldnames = None, records = []\<rparr>) = Inl ZeroDivisionError"
  by (simp add: audit_def read_rows_def report_def percentage_def counters0_def)

section \<open>Malformed confidence values\<close>

lemma malformed_confidence_parse:
  assumes "malformed_confidence pf r"
  shows "parse_confidence pf r = Inr lit_0_0"
proof (cases "map_of r (col ''Confidence_Score'')")
  case None
  then show ?thesis by (simp add: parse_confidence_def dict_get_def)
next
  case (Some v)
  with assms obtain e where e: "py_float pf v = Inl e"
    by (auto simp: malformed_confidence_def split: sum.splits)
  from py_float_errors [OF e] e Some show ?thesis
    by (auto simp: parse_confidence_def dict_get_def)
qed

lemma lit_0_0_not_above: "\<not> float_gt lit_0_0 lit_0_85" "\<not> float_gt lit_0_0 lit_0_8"
  by (simp_all add: lit_0_0_def lit_0_85_def lit_0_8_def float_gt_def)

lemma policy_spec_zero: "policy_spec original predicted lit_0_0 = (NEEDS_REVIEW, original)"
  by (simp add: policy_spec_cases lit_0_0_not_above lit_0_0_below)

lemma clean_row_total_counted:
  "clean_row pf st r = Inr (st', r') \<Longrightarrow> stats_total st' = stats_total st + 1"
  by (auto simp: clean_row_def Let_def split: sum.splits if_splits option.splits)

lemma clean_row_error: "clean_row pf st r = Inl e \<Longrightarrow> e = AttributeError"
proof -
  assume a: "clean_row pf st r = Inl e"
  have s: "\<And>v e. str_strip v = Inl e \<Longrightarrow> e = AttributeError"
    subgoal for v e by (cases v) simp_all
    done
  obtain confidence where c: "parse_confidence pf r = Inr confidence"
    using parse_confidence_total by blast
  show ?thesis
  proof (cases "str_strip (dict_get r (col ''Category'') (Str []))")
    case (Inl e')
    with a s [OF Inl] show ?thesis by (simp add: clean_row_Inl_Category)
  next
    case o: (Inr original)
    show ?thesis
    proof (cases "str_strip (dict_get r (col ''Predicted_Tag'') (Str []))")
      case (Inl e')
      with a o s [OF Inl] show ?thesis by (simp add: clean_row_Inl_Predicted)
    next
      case (Inr predicted)
      from clean_row_policy [OF o Inr c, of st] a show ?thesis by auto
    qed
  qed
qed

lemma audit_row_error: "audit_row pf c r = Inl e \<Longrightarrow> e = AttributeError"
proof -
  assume a: "audit_row pf c r = Inl e"
  have s: "\<And>v e. str_strip v = Inl e \<Longrightarrow> e = AttributeError"
    subgoal for v e by (cases v) simp_all
    done
  obtain confidence where c: "parse_confidence pf r = Inr confidence"
    using parse_confidence_total by blast
  show ?thesis
  proof (cases "str_strip (dict_get r (col ''Category'') (Str []))")
    case (Inl e')
    with a s [OF Inl] show ?thesis by (simp add: audit_row_def)
  next
    case o: (Inr original)
    show ?thesis
    proof (cases "str_strip (dict_get r (col ''Predicted_Tag'') (Str []))")
      case (Inl e')
      with a o s [OF Inl] show ?thesis by (simp add: audit_row_def)
    next
      case (Inr predicted)
      with a o c show ?thesis by (simp add: audit_row_def Let_def)
    qed
  qed
qed

text \<open>
  C8. In \<open>audit\<close> and in \<open>clean\<close>, a \<open>Confidence_Score\<close> that is missing or that
  \<open>float\<close> rejects is replaced by 0.0. Neither loop body ever ends with the
  \<open>ValueError\<close> or \<open>TypeError\<close> of the conversion, and the row is not passed over: once
  its category and prediction are trimmed, \<open>clean\<close> counts it and marks it
  \<open>NEEDS_REVIEW\<close> with its category kept, and \<open>audit\<close> counts it in \<open>total\<close> and in
  \<open>low_conf\<close> and in no high-confidence bucket.
\<close>

theorem malformed_confidence_becomes_zero:
  assumes "malformed_confidence pf r"
  shows "parse_confidence pf r = Inr lit_0_0 \<and>
         clean_row pf st r \<noteq> Inl ValueError \<and> clean_row pf st r \<noteq> Inl TypeError \<and>
         audit_row pf c r \<noteq> Inl ValueError \<and> audit_row pf c r \<noteq> Inl TypeError \<and>
         (\<forall>original predicted.
            str_strip (dict_get r (col ''Category'') (Str [])) = Inr original \<and>
            str_strip (dict_get r (col ''Predicted_Tag'') (Str [])) = Inr predicted \<longrightarrow>
            (\<exists>st' r'. clean_row pf st r = Inr (st', r') \<and>
               stats_total st' = stats_total st + 1 \<and>
               map_of r' (col ''Audit_Status'') = Some (Str (py ''NEEDS_REVIEW'')) \<and>
               map_of r' (col ''Final_Tag'') = Some (Str original)) \<and>
            (\<exists>c'. audit_row pf c r = Inr c' \<and> total c' = total c + 1 \<and>
               low_conf c' = low_conf c + 1 \<and>
               high_conf_agreements c' = high_conf_agreements c \<and>
               high_conf_disagreements c' = high_conf_disagreements c))"
proof -
  note z = malformed_confidence_parse [OF assms]
  have e: "clean_row pf st r \<noteq> Inl ValueError" "clean_row pf st r \<noteq> Inl TypeError"
    "audit_row pf c r \<noteq> Inl ValueError" "audit_row pf c r \<noteq> Inl TypeError"
    using clean_row_error [of pf st r] audit_row_error [of pf c r] by auto
  have "\<exists>st' r'. clean_row pf st r = Inr (st', r') \<and>
               stats_total st' = stats_total st + 1 \<and>
               map_of r' (col ''Audit_Status'') = Some (Str (py ''NEEDS_REVIEW'')) \<and>
               map_of r' (col ''Final_Tag'') = Some (Str original)"
    if h: "str_strip (dict_get r (col ''Category'') (Str [])) = Inr original"
          "str_strip (dict_get r (col ''Predicted_Tag'') (Str [])) = Inr predicted"
    for original predicted
  proof -
    from clean_row_returns [OF h] obtain st' r' where eq: "clean_row pf st r = Inr (st', r')"
      by blast
    from clean_row_fields [OF eq h z] clean_row_total_counted [OF eq] eq
    show ?thesis by (simp add: policy_spec_zero)
  qed
  moreover have "\<exists>c'. audit_row pf c r = Inr c' \<and> total c' = total c + 1 \<and>
               low_conf c' = low_conf c + 1 \<and>
               high_conf_agreements c' = high_conf_agreements c \<and>
               high_conf_disagreements c' = high_conf_disagreements c"
    if h: "str_strip (dict_get r (col ''Category'') (Str [])) = Inr original"
          "str_strip (dict_get r (col ''Predicted_Tag'') (Str [])) = Inr predicted"
    for original predicted
  proof -
    from audit_row_returns [OF h] obtain c' where eq: "audit_row pf c r = Inr c'" by blast
    from audit_row_counts [OF eq] eq z show ?thesis
      by (simp add: confidence_above_def confidence_below_def lit_0_0_not_above lit_0_0_below)
  qed
  ultimately show ?thesis using z e by blast
qed

lemma row_not_a_number_fields:
  "str_strip (dict_get row_not_a_number (col ''Category'') (Str [])) = Inr (py ''Real Estate'')"
  "str_strip (dict_get row_not_a_number (col ''Predicted_Tag'') (Str [])) =
     Inr (py ''Real Estate Agency and Property Rentals'')"
  by (simp_all add: example_defs)

lemma row_not_a_number_malformed: "malformed_confidence example_float row_not_a_number"
  by (simp add: malformed_confidence_def example_defs)

lemma row_short_malformed: "malformed_confidence example_float row_short"
  by (simp add: malformed_confidence_def example_defs)

theorem malformed_confidence_becomes_zero_witness:
  "malformed_confidence example_float row_not_a_number \<and>
   parse_confidence example_float row_not_a_number = Inr lit_0_0 \<and>
   (\<exists>st' r'. clean_row example_float stats0 row_not_a_number = Inr (st', r') \<and>
      map_of r' (col ''Audit_Status'') = Some (Str (py ''NEEDS_REVIEW'')) \<and>
      map_of r' (col ''Final_Tag'') = Some (Str (py ''Real Estate''))) \<and>
   (\<exists>c'. audit_row example_float counters0 row_not_a_number = Inr c' \<and> total c' = 1 \<and>
      low_conf c' = 1)"
  using malformed_confidence_becomes_zero [OF row_not_a_number_malformed, of stats0 counters0]
    row_not_a_number_malformed row_not_a_number_fields
  by (auto simp: counters0_def)

section \<open>The classification stage\<close>

lemma strip_blank:
  assumes "\<forall>c \<in> set text. isspace c"
  shows "strip text = []"
proof -
  from assms have d: "dropWhile isspace text = []"
    by (simp add: dropWhile_eq_Nil_conv)
  show ?thesis unfolding strip_def d by simp
qed

text \<open>
  C6. For a text that is empty or holds white space only, \<open>run_classification\<close> returns
  the label \<open>None of the above\<close> with the score 1.0, and the state of the collaborator
  is what it was: the model is not loaded and the classifier is not called.
\<close>

theorem blank_text_short_circuit:
  assumes "\<forall>c \<in> set text. isspace c"
  shows "run_classification cl (Str text) candidate_tags s = (Inr (NONE_TAG, lit_1_0), s)"
  using strip_blank [OF assms] by (simp add: run_classification_def)

theorem blank_text_short_circuit_witness:
  "isspace 32 \<and> isspace 9 \<and> isspace 12288 \<and>
   run_classification failing_collaborator (Str [32, 9, 12288]) [py ''Real Estate''] cls_state0 =
     (Inr (py ''None of the above'', Fin 1), cls_state0) \<and>
   run_classification failing_collaborator (Str []) [] cls_state0 =
     (Inr (py ''None of the above'', Fin 1), cls_state0)"
proof -
  have h: "\<forall>c \<in> set [32, 9, 12288]. isspace c" by (simp add: isspace_def)
  have e: "\<forall>c \<in> set []. isspace c" by simp
  from blank_text_short_circuit [OF h, of failing_collaborator _ cls_state0]
    blank_text_short_circuit [OF e, of failing_collaborator _ cls_state0] h show ?thesis
    by (simp add: NONE_TAG_def lit_1_0_def)
qed

section \<open>The process command\<close>

lemma keys_dict_set: "fst ` set (dict_set d k v) = insert k (fst ` set d)"
  by (simp add: dict_set_def dom_update)

lemma keys_fold_zip:
  "fst ` set (fold (\<lambda>(k, v) d. dict_set d (Some k) (Str v)) xs d0) =
     fst ` set d0 \<union> Some ` fst ` set xs"
proof (induction xs arbitrary: d0)
  case Nil
  then show ?case by simp
next
  case (Cons x xs)
  obtain k v where x: "x = (k, v)" by (cases x)
  show ?case unfolding x by (simp add: Cons.IH keys_dict_set)
qed

lemma keys_fold_none:
  "fst ` set (fold (\<lambda>k d. dict_set d (Some k) PyNone) ks d0) = fst ` set d0 \<union> Some ` set ks"
proof (induction ks arbitrary: d0)
  case Nil
  then show ?case by simp
next
  case (Cons k ks)
  show ?case by (simp add: Cons.IH keys_dict_set)
qed

lemma fst_set_zip: "fst ` set (zip xs ys) = set (take (length ys) xs)"
proof -
  have "fst ` set (zip xs ys) = set (map fst (zip xs ys))" by simp
  also have "\<dots> = set (take (min (length xs) (length ys)) xs)"
    by (simp only: map_fst_zip_take)
  also have "\<dots> = set (take (length ys) xs)"
    by (cases "length xs \<le> length ys") (simp_all add: min_def)
  finally show ?thesis .
qed

lemma dict_row_keys:
  assumes "length flds \<le> length names"
  shows "fst ` set (dict_row names flds) = Some ` set names"
proof (cases "length flds = length names")
  case True
  then show ?thesis
    by (simp add: dict_row_def Let_def keys_fold_zip fst_set_zip)
next
  case False
  with assms have lt: "length flds < length names" by simp
  have "set (take (length flds) names) \<union> set (drop (length flds) names) = set names"
    by (metis append_take_drop_id set_append)
  with lt show ?thesis
    by (simp add: dict_row_def Let_def keys_fold_zip keys_fold_none fst_set_zip image_Un [symmetric])
qed

lemma writerow_ok:
  assumes "fst ` set r \<subseteq> Some ` set names"
  shows "writerow names r = Inr (map (\<lambda>key. dict_get r (Some key) (Str [])) names)"
  using assms by (auto simp: writerow_def)

lemma dict_item_key:
  assumes "k \<in> fst ` set r"
  shows "\<exists>v. dict_item r k = Inr v"
proof -
  from assms have "map_of r k \<noteq> None" by (simp add: map_of_eq_None_iff)
  then show ?thesis by (auto simp: dict_item_def)
qed

lemma process_row_marked:
  "process_row cl new_headers column candidate_tags r s =
    (case dict_item r (Some column) of
       Inl e \<Rightarrow> (Inl e, s)
     | Inr text \<Rightarrow>
         (writerow new_headers (marked r (fst (run_classification cl text candidate_tags s))),
          snd (run_classification cl text candidate_tags s)))"
  by (auto simp: process_row_def marked_def split: sum.splits prod.splits)

lemma keys_marked:
  "fst ` set (marked r res) = insert (col ''Predicted_Tag'') (insert (col ''Confidence_Score'') (fst ` set r))"
  by (auto simp: marked_def keys_dict_set split: sum.splits)

lemma writerow_marked:
  assumes "fst ` set r = Some ` set header"
  shows "writerow (header @ [py ''Predicted_Tag'', py ''Confidence_Score'']) (marked r res) =
           Inr (map (\<lambda>key. dict_get (marked r res) (Some key) (Str []))
                  (header @ [py ''Predicted_Tag'', py ''Confidence_Score'']))"
  by (rule writerow_ok) (auto simp: keys_marked assms)


lemma process_row_good:
  assumes "fst ` set r = Some ` set header" and "column \<in> set header"
  shows "\<exists>text. dict_item r (Some column) = Inr text \<and>
           process_row cl (header @ [py ''Predicted_Tag'', py ''Confidence_Score'']) column ctags r s =
             (writerow (header @ [py ''Predicted_Tag'', py ''Confidence_Score''])
                (marked r (fst (run_classification cl text ctags s))),
              snd (run_classification cl text ctags s)) \<and>
           (\<exists>line. writerow (header @ [py ''Predicted_Tag'', py ''Confidence_Score''])
                     (marked r (fst (run_classification cl text ctags s))) = Inr line)"
proof -
  from assms have "Some column \<in> fst ` set r" by simp
  from dict_item_key [OF this] obtain field where t: "dict_item r (Some column) = Inr field"
    by blast
  from writerow_marked [OF assms(1)] t show ?thesis
    by (simp add: process_row_marked)
qed

lemma process_rows_good:
  assumes "\<forall>r \<in> set rows. fst ` set r = Some ` set header" and "column \<in> set header"
  shows "\<exists>out s'.
           process_rows cl (header @ [py ''Predicted_Tag'', py ''Confidence_Score'']) column ctags rows s =
             (out, None, s') \<and>
           length out = length rows \<and>
           (\<forall>i < length rows.
              fst (process_row cl (header @ [py ''Predicted_Tag'', py ''Confidence_Score'']) column ctags
                     (rows ! i)
                     (snd (snd (process_rows cl (header @ [py ''Predicted_Tag'', py ''Confidence_Score''])
                                  column ctags (take i rows) s)))) = Inr (out ! i))"
  using assms(1)
proof (induction rows arbitrary: s)
  case Nil
  then show ?case by simp
next
  case (Cons r rs)
  let ?nh = "header @ [py ''Predicted_Tag'', py ''Confidence_Score'']"
  from Cons.prems have "fst ` set r = Some ` set header" by simp
  from process_row_good [OF this assms(2), of cl ctags s] obtain line s1 where
    step: "process_row cl ?nh column ctags r s = (Inr line, s1)"
    by auto
  from Cons.prems have "\<forall>r \<in> set rs. fst ` set r = Some ` set header" by simp
  from Cons.IH [OF this, of s1] obtain out s' where
    rest: "process_rows cl ?nh column ctags rs s1 = (out, None, s')"
    and len: "length out = length rs"
    and nth: "\<forall>i < length rs.
                fst (process_row cl ?nh column ctags (rs ! i)
                       (snd (snd (process_rows cl ?nh column ctags (take i rs) s1)))) = Inr (out ! i)"
    by blast
  have all: "process_rows cl ?nh column ctags (r # rs) s = (line # out, None, s')"
    using step rest by simp
  have "fst (process_row cl ?nh column ctags ((r # rs) ! i)
               (snd (snd (process_rows cl ?nh column ctags (take i (r # rs)) s)))) =
          Inr ((line # out) ! i)"
    if "i < length (r # rs)" for i
  proof (cases i)
    case 0
    then show ?thesis using step by simp
  next
    case (Suc j)
    with that have j: "j < length rs" by simp
    have "snd (snd (process_rows cl ?nh column ctags (take i (r # rs)) s)) =
          snd (snd (process_rows cl ?nh column ctags (take j rs) s1))"
      unfolding Suc using step by (simp split: prod.splits)
    with nth j Suc show ?thesis by simp
  qed
  with all len show ?case by simp
qed

lemma read_rows_keys:
  assumes "fieldnames f = Some header"
      and "\<forall>flds \<in> set (records f). length flds \<le> length header"
  shows "\<forall>r \<in> set (read_rows f). fst ` set r = Some ` set header"
  using assms by (auto simp: read_rows_def dict_row_keys)

lemma marked_error_cells:
  "drop (length header)
     (map (\<lambda>key. dict_get (marked r (Inl e)) (Some key) (Str []))
        (header @ [py ''Predicted_Tag'', py ''Confidence_Score''])) =
   [Str (py ''ERROR''), Str (py ''0.0'')]"
  by (simp add: marked_def dict_get_dict_set py_inj)

text \<open>
  What the loop of \<open>process_csv\<close> does when no record has more fields than the header:
  the command ends without exception, the output holds one line per row that
  \<open>csv.DictReader\<close> delivered, in order, and line \<open>i\<close> is row \<open>i\<close> marked with the outcome
  of its classification (run in the state that the rows before it left): on every failure
  the two new columns hold \<open>ERROR\<close> and \<open>0.0\<close>.
\<close>

theorem process_writes_every_row:
  assumes "fieldnames f = Some header"
      and "column \<in> set header"
      and "\<forall>flds \<in> set (records f). length flds \<le> length header"
  shows "\<exists>out s'.
           process_csv cl (Some f) column tags s =
             (Some \<lparr>out_header = header @ [py ''Predicted_Tag'', py ''Confidence_Score''],
                    out_rows = out\<rparr>, None, s') \<and>
           length out = length (read_rows f) \<and>
           (\<forall>i < length (read_rows f). \<exists>text res.
              dict_item (read_rows f ! i) (Some column) = Inr text \<and>
              res = fst (run_classification cl text (map strip (split_on 44 tags))
                      (snd (snd (process_rows cl
                         (header @ [py ''Predicted_Tag'', py ''Confidence_Score'']) column
                         (map strip (split_on 44 tags)) (take i (read_rows f)) s)))) \<and>
              writerow (header @ [py ''Predicted_Tag'', py ''Confidence_Score''])
                (marked (read_rows f ! i) res) = Inr (out ! i) \<and>
              ((\<exists>e. res = Inl e) \<longrightarrow>
                 drop (length header) (out ! i) = [Str (py ''ERROR''), Str (py ''0.0'')]))"
proof -
  let ?nh = "header @ [py ''Predicted_Tag'', py ''Confidence_Score'']"
  let ?ct = "map strip (split_on 44 tags)"
  let ?rows = "read_rows f"
  note keys = read_rows_keys [OF assms(1,3)]
  from process_rows_good [OF keys assms(2), of cl ?ct s] obtain out s' where
    run: "process_rows cl ?nh column ?ct ?rows s = (out, None, s')"
    and len: "length out = length ?rows"
    and nth: "\<forall>i < length ?rows.
                fst (process_row cl ?nh column ?ct (?rows ! i)
                       (snd (snd (process_rows cl ?nh column ?ct (take i ?rows) s)))) = Inr (out ! i)"
    by blast
  have csv: "process_csv cl (Some f) column tags s =
               (Some \<lparr>out_header = ?nh, out_rows = out\<rparr>, None, s')"
    using assms(1,2) run by (simp add: process_csv_def Let_def)
  have "\<exists>text res.
          dict_item (?rows ! i) (Some column) = Inr text \<and>
          res = fst (run_classification cl text ?ct
                  (snd (snd (process_rows cl ?nh column ?ct (take i ?rows) s)))) \<and>
          writerow ?nh (marked (?rows ! i) res) = Inr (out ! i) \<and>
          ((\<exists>e. res = Inl e) \<longrightarrow>
             drop (length header) (out ! i) = [Str (py ''ERROR''), Str (py ''0.0'')])"
    if i: "i < length ?rows" for i
  proof -
    let ?s = "snd (snd (process_rows cl ?nh column ?ct (take i ?rows) s))"
    from i keys have k: "fst ` set (?rows ! i) = Some ` set header" by simp
    from process_row_good [OF k assms(2), of cl ?ct ?s] obtain field where
      t: "dict_item (?rows ! i) (Some column) = Inr field"
      and p: "process_row cl ?nh column ?ct (?rows ! i) ?s =
                (writerow ?nh (marked (?rows ! i) (fst (run_classification cl field ?ct ?s))),
                 snd (run_classification cl field ?ct ?s))"
      by blast
    let ?res = "fst (run_classification cl field ?ct ?s)"
    from nth i have "fst (process_row cl ?nh column ?ct (?rows ! i) ?s) = Inr (out ! i)"
      by blast
    then have w: "writerow ?nh (marked (?rows ! i) ?res) = Inr (out ! i)"
      unfolding p by (simp only: fst_conv)
    have "drop (length header) (out ! i) = [Str (py ''ERROR''), Str (py ''0.0'')]"
      if "?res = Inl e" for e
    proof -
      from w that writerow_marked [OF k, of "Inl e"]
      have "out ! i = map (\<lambda>key. dict_get (marked (?rows ! i) (Inl e)) (Some key) (Str [])) ?nh"
        by simp
      then show ?thesis by (simp only: marked_error_cells)
    qed
    with t w show ?thesis by blast
  qed
  with csv len show ?thesis by blast
qed

lemmas process_defs =
  process_csv_def read_rows_def dict_row_def process_row_def run_classification_def
  get_classifier_def writerow_def dict_item_def dict_set_def dict_get_def strip_def isspace_def
  py_def Let_def NONE_TAG_def lit_1_0_def lit_0_9_def

theorem process_writes_every_row_example:
  "fieldnames example_input = Some [py ''text''] \<and>
   py ''text'' \<in> set [py ''text''] \<and>
   map length (records example_input) = [1, 1, 1] \<and>
   process_csv example_collaborator (Some example_input) (py ''text'') (py ''Legal, Real Estate'')
     cls_state0 =
     (Some \<lparr>out_header = [py ''text'', py ''Predicted_Tag'', py ''Confidence_Score''],
            out_rows =
              [[Str (py ''lawyers''), Str (py ''Legal''), Flt lit_0_9],
               [Str (py ''boom''), Str (py ''ERROR''), Str (py ''0.0'')],
               [Str (py ''  ''), Str (py ''None of the above''), Flt lit_1_0]]\<rparr>,
      None,
      \<lparr>loaded = True, load_attempts = 1,
        calls = [(py ''lawyers'', [py ''Legal'', py ''Real Estate'', py ''None of the above'']),
                 (py ''boom'', [py ''Legal'', py ''Real Estate'', py ''None of the above''])]\<rparr>)"
proof -
  have h: "fieldnames example_input = Some [py ''text'']" "py ''text'' \<in> set [py ''text'']"
    "\<forall>flds \<in> set (records example_input). length flds \<le> length [py ''text'']"
    by (simp_all add: example_input_def)
  have e: "process_csv example_collaborator (Some example_input) (py ''text'')
             (py ''Legal, Real Estate'') cls_state0 =
     (Some \<lparr>out_header = [py ''text'', py ''Predicted_Tag'', py ''Confidence_Score''],
            out_rows =
              [[Str (py ''lawyers''), Str (py ''Legal''), Flt lit_0_9],
               [Str (py ''boom''), Str (py ''ERROR''), Str (py ''0.0'')],
               [Str (py ''  ''), Str (py ''None of the above''), Flt lit_1_0]]\<rparr>,
      None,
      \<lparr>loaded = True, load_attempts = 1,
        calls = [(py ''lawyers'', [py ''Legal'', py ''Real Estate'', py ''None of the above'']),
                 (py ''boom'', [py ''Legal'', py ''Real Estate'', py ''None of the above''])]\<rparr>)"
    by (simp add: process_defs example_input_def example_collaborator_def cls_state0_def)
  from process_writes_every_row [OF h, of example_collaborator "py ''Legal, Real Estate''" cls_state0]
  have "\<exists>out s'. process_csv example_collaborator (Some example_input) (py ''text'')
             (py ''Legal, Real Estate'') cls_state0 =
            (Some \<lparr>out_header = [py ''text''] @ [py ''Predicted_Tag'', py ''Confidence_Score''],
                   out_rows = out\<rparr>, None, s') \<and> length out = length (read_rows example_input)"
    by blast
  with h e show ?thesis by (simp add: example_input_def)
qed

text \<open>
  C7. The row is not always written, and a failure of one record can end the batch: for a
  record with more fields than the header, \<open>csv.DictReader\<close> keeps the surplus under the
  key \<open>None\<close>, and \<open>writer.writerow(row)\<close> in the \<open>finally\<close> clause raises
  \<open>ValueError\<close> for that key. Here the classification of the only row raises, the row is
  marked, and the command ends with \<open>ValueError\<close> and an output without any row.
\<close>

theorem process_long_row_aborts:
  "length (read_rows long_row_input) = 1 \<and>
   fst (run_classification failing_collaborator (Str (py ''boom''))
          [py ''Legal'', py ''Real Estate''] cls_state0) = Inl (LibraryError 1) \<and>
   process_csv failing_collaborator (Some long_row_input) (py ''text'') (py ''Legal, Real Estate'')
     cls_state0 =
     (Some \<lparr>out_header = [py ''text'', py ''Predicted_Tag'', py ''Confidence_Score''],
            out_rows = []\<rparr>,
      Some ValueError,
      \<lparr>loaded = False, load_attempts = 1, calls = []\<rparr>)"
  by (simp add: process_defs long_row_input_def failing_collaborator_def cls_state0_def)

end
